theory Spec2Isabelle
  imports Complex_Main
begin

section \<open>Python values, exceptions and formatting\<close>

text \<open>
  The integration is Python. A raised exception is a value of \<open>py_exn\<close>; a call that
  may raise returns \<open>py_exn + 'a\<close>, with \<open>Inl\<close> the exception. \<open>Exception\<close> stands for
  any exception that is none of the three named ones: the handlers of the source are
  \<^verbatim>\<open>except Exception\<close> and \<^verbatim>\<open>except (ValueError, TypeError)\<close>, so no more is
  distinguished.
\<close>

datatype py_exn = ValueError | TypeError | OverflowError | Exception

type_synonym 'a result = "py_exn + 'a"

text \<open>
  The values a parameter's \<^verbatim>\<open>"timestamp"\<close> entry can hold, as far as the builtin
  \<^verbatim>\<open>int()\<close> tells them apart: \<^verbatim>\<open>None\<close>, an int, a finite float, the floats nan
  and inf, a str (given by what \<^verbatim>\<open>int()\<close> reads in it: \<open>PyStr (Some 42)\<close> is
  \<^verbatim>\<open>"42"\<close>, \<open>PyStr None\<close> is a str that is no integer literal such as \<^verbatim>\<open>"abc"\<close>),
  and a list.
\<close>

datatype pyval =
    PyNone
  | PyInt int
  | PyFloat real
  | PyFloat_nan
  | PyFloat_inf
  | PyStr "int option"
  | PyList

definition trunc :: "real \<Rightarrow> int" where
  "trunc x = (if 0 \<le> x then \<lfloor>x\<rfloor> else \<lceil>x\<rceil>)"

text \<open>The builtin \<^verbatim>\<open>int(x)\<close>: truncation towards zero on a float, ValueError on nan
  and on a str that is no literal, OverflowError on an infinity, TypeError on None and
  on a list.\<close>

fun py_int :: "pyval \<Rightarrow> int result" where
  "py_int PyNone = Inl TypeError"
| "py_int (PyInt n) = Inr n"
| "py_int (PyFloat x) = Inr (trunc x)"
| "py_int PyFloat_nan = Inl ValueError"
| "py_int PyFloat_inf = Inl OverflowError"
| "py_int (PyStr None) = Inl ValueError"
| "py_int (PyStr (Some n)) = Inr n"
| "py_int PyList = Inl TypeError"

text \<open>Decimal rendering of an int, as an f-string does it.\<close>

fun str_nat :: "nat \<Rightarrow> string" where
  "str_nat n =
     (if n < 10 then [char_of (48 + n)]
      else str_nat (n div 10) @ [char_of (48 + n mod 10)])"

declare str_nat.simps [simp del]

definition py_str :: "int \<Rightarrow> string" where
  "py_str i = (if i < 0 then CHR ''-'' # str_nat (nat (- i)) else str_nat (nat i))"


section \<open>The watchdog's timestamp scan (sensor.py)\<close>

text \<open>
  \<^verbatim>\<open>web_boiler_client.data\<close> is a dict of devices, a device a dict whose
  \<^verbatim>\<open>"parameters"\<close> entry is a dict of parameters, a parameter a dict with a
  \<^verbatim>\<open>"timestamp"\<close> entry. Only the values are read, in the dict's order, so a dict is
  the list of its values; an entry that may be missing is an option.
\<close>

record param =
  timestamp :: "pyval option"

record device =
  parameters :: "param list option"

text \<open>
  The inner loop \<^verbatim>\<open>for p in params.values()\<close>. The result is the value of the local
  \<^verbatim>\<open>latest\<close> when the loop is left, and the exception that left it, if one did: the
  inner handler takes ValueError and TypeError only, anything else leaves the loop.
\<close>

fun scan_params :: "param list \<Rightarrow> int option \<Rightarrow> int option \<times> py_exn option" where
  "scan_params [] latest = (latest, None)"
| "scan_params (p # ps) latest =
     (let ts = (case timestamp p of None \<Rightarrow> PyNone | Some v \<Rightarrow> v) in
      if ts = PyNone then scan_params ps latest
      else
        (case py_int ts of
           Inl e \<Rightarrow>
             if e = ValueError \<or> e = TypeError then scan_params ps latest
             else (latest, Some e)
         | Inr ts_int \<Rightarrow>
             (case latest of
                None \<Rightarrow> scan_params ps (Some ts_int)
              | Some l \<Rightarrow>
                  if ts_int > l then scan_params ps (Some ts_int)
                  else scan_params ps (Some l))))"

text \<open>The outer loop \<^verbatim>\<open>for device in web_boiler_client.data.values()\<close>;
  \<^verbatim>\<open>device.get("parameters", {})\<close> is the empty dict when the entry is missing.\<close>

fun scan_devices :: "device list \<Rightarrow> int option \<Rightarrow> int option \<times> py_exn option" where
  "scan_devices [] latest = (latest, None)"
| "scan_devices (d # ds) latest =
     (let params = (case parameters d of None \<Rightarrow> [] | Some ps \<Rightarrow> ps) in
      case scan_params params latest of
        (latest', Some e) \<Rightarrow> (latest', Some e)
      | (latest', None) \<Rightarrow> scan_devices ds latest')"

text \<open>\<^verbatim>\<open>_latest_param_ts\<close>: the outer handler \<^verbatim>\<open>except Exception\<close> takes whatever
  left the loops (and logs it at debug level), and \<^verbatim>\<open>latest\<close> is returned as it then
  stands.\<close>

definition latest_param_ts :: "device list \<Rightarrow> int option" where
  "latest_param_ts data = fst (scan_devices data None)"

definition latest_param_ts_failed :: "device list \<Rightarrow> bool" where
  "latest_param_ts_failed data = (snd (scan_devices data None) \<noteq> None)"


section \<open>The watchdog's constants and its reload reason (sensor.py)\<close>

definition WATCHDOG_INTERVAL :: int where
  "WATCHDOG_INTERVAL = 2 * 60"

definition STALE_SECONDS :: int where
  "STALE_SECONDS = 10 * 60"

definition RELOAD_COOLDOWN_SECONDS :: int where
  "RELOAD_COOLDOWN_SECONDS = 15 * 60"

text \<open>
  The value of the local \<^verbatim>\<open>reload_reason\<close> of \<^verbatim>\<open>_tick\<close> after its steps 1 and 2,
  from what \<^verbatim>\<open>_tick\<close> has read by then: \<open>conn\<close> (the local
  \<^verbatim>\<open>connected\<close>), the client's data,
  \<open>now_ts\<close>, and the store's \<^verbatim>\<open>_watchdog_started_ts\<close> entry (\<open>None\<close> when
  missing: \<^verbatim>\<open>store.get("_watchdog_started_ts", now_ts)\<close>).
  \<^verbatim>\<open>_WATCHDOG_INTERVAL.total_seconds() * 2\<close> is the float 240.0, compared with an
  int exactly.
\<close>

definition reload_reason :: "bool \<Rightarrow> device list \<Rightarrow> int \<Rightarrow> int option \<Rightarrow> string option" where
  "reload_reason conn data now_ts started =
     (let reason = (if \<not> conn then Some ''websocket disconnected'' else None) in
      if reason = None then
        (case latest_param_ts data of
           None \<Rightarrow>
             if now_ts - (case started of None \<Rightarrow> now_ts | Some s \<Rightarrow> s) > WATCHDOG_INTERVAL * 2
             then Some ''no timestamps available''
             else None
         | Some latest_ts \<Rightarrow>
             if now_ts - latest_ts > STALE_SECONDS
             then Some (''stale data ('' @ py_str (now_ts - latest_ts) @ ''s > ''
                        @ py_str STALE_SECONDS @ ''s)'')
             else None)
      else reason)"


section \<open>The outside world: clock, remote session client, host platform\<close>

text \<open>
  The integration owns no network code and no timer: it calls the vendor's client
  library and the host platform. Neither is part of the source, so both are an
  arbitrary \<open>world\<close>, which answers each call from the history of everything that
  happened before it (the trace). A theorem for every \<open>world\<close> holds for every
  behaviour of the client, the clock and the platform.

  Objects are addressed: a \<^verbatim>\<open>WebBoilerSystem\<close> (with the \<^verbatim>\<open>WebBoilerClient\<close> it owns)
  and a per-account dict of \<^verbatim>\<open>hass.data[DOMAIN]\<close> have an address each, since timer
  callbacks keep references to them.
\<close>

type_synonym addr = nat
type_synonym handle = nat

datatype client_call =
    Login
  | Get_configuration
  | Start_websocket
  | Refresh
  | Close_websocket
  | Close_session
  | Relogin
  | Is_websocket_connected

datatype level = Debug | Info | Warning | Error

text \<open>A config entry: its id and the account it is for (\<^verbatim>\<open>entry.data[CONF_EMAIL]\<close>,
  which is the \<^verbatim>\<open>username\<close> and the \<^verbatim>\<open>unique_id\<close> of the source).\<close>

record config_entry =
  entry_id :: string
  conf_email :: string

text \<open>The two timer callbacks of the source: \<^verbatim>\<open>_on_interval\<close> of \<^verbatim>\<open>start_tick\<close>,
  a closure over \<^verbatim>\<open>self\<close>, and \<^verbatim>\<open>_tick\<close> of \<^verbatim>\<open>_start_or_replace_watchdog\<close>, a
  closure over \<^verbatim>\<open>store\<close> and \<^verbatim>\<open>config_entry\<close>.\<close>

datatype callback =
    On_interval addr
  | Watchdog_tick addr config_entry

datatype event =
    Client addr client_call
  | Set_last_relogin addr real
  | Set_last_refresh addr real
  | Track_time_interval handle
  | Unsub handle
  | Listen_once_stop addr
  | Forward_entry_setups string
  | Unload_platforms string
  | Create_task_reload string
  | Log level string

text \<open>
  \<open>clock\<close> is \<^verbatim>\<open>time.time()\<close> and \<^verbatim>\<open>datetime.datetime.now().timestamp()\<close>, in
  seconds; Python's floats are read as the real numbers they denote (the source
  subtracts and compares them, nothing else).
  \<open>client_reply\<close> is what a method of the client (of the system at the address)
  returns or raises; for a method that returns nothing only \<open>Inl\<close> or \<open>Inr\<close> counts.
  \<open>client_data\<close> is the client's \<^verbatim>\<open>data\<close>.
  \<open>unsub_raises\<close> says whether invoking a timer's cancellation handle raises, and
  \<open>unload_platforms_reply\<close> is the result of
  \<^verbatim>\<open>hass.config_entries.async_unload_platforms\<close>.
  The two intervals are constants of \<^verbatim>\<open>const.py\<close>, which is not among the sources:
  they are parameters here.
\<close>

record world =
  clock :: "event list \<Rightarrow> real"
  client_reply :: "event list \<Rightarrow> addr \<Rightarrow> client_call \<Rightarrow> bool result"
  client_data :: "event list \<Rightarrow> addr \<Rightarrow> device list"
  unsub_raises :: "event list \<Rightarrow> handle \<Rightarrow> bool"
  unload_platforms_reply :: "event list \<Rightarrow> bool"
  WEB_BOILER_LOGIN_RETRY_INTERVAL :: real
  WEB_BOILER_REFRESH_INTERVAL :: real

text \<open>A \<^verbatim>\<open>WebBoilerSystem\<close>: the attributes its methods read and write.\<close>

record session =
  username :: string
  last_relogin_timestamp :: real
  last_refresh_timestamp :: real
  tick_unsub :: "handle option"

text \<open>The dict \<^verbatim>\<open>hass.data[DOMAIN][username]\<close>: its five keys, \<open>None\<close> for a key
  that is not in the dict.\<close>

record store =
  web_boiler_system :: "addr option"
  web_boiler_client :: "addr option"
  watchdog_unsub :: "handle option"
  last_reload_ts :: "int option"
  watchdog_started_ts :: "int option"

definition empty_store :: store where
  "empty_store =
     \<lparr>web_boiler_system = None, web_boiler_client = None, watchdog_unsub = None,
      last_reload_ts = None, watchdog_started_ts = None\<rparr>"

text \<open>
  The state of the process. \<open>timers\<close> lists the callback of every timer
  \<^verbatim>\<open>async_track_time_interval\<close> ever made, a timer's handle being its index;
  \<open>cancelled\<close> lists the handles that were invoked. A timer is active from its
  creation until its handle is invoked (the platform's contract for the handle).
  \<open>domain_data\<close> is \<^verbatim>\<open>hass.data[DOMAIN]\<close>.
\<close>

record hass =
  trace :: "event list"
  timers :: "callback list"
  cancelled :: "handle list"
  systems :: "addr \<Rightarrow> session"
  stores :: "addr \<Rightarrow> store"
  next_addr :: addr
  domain_data :: "string \<Rightarrow> addr option"

text \<open>The format strings of the log lines, by name.\<close>

definition msg_starting :: string where
  "msg_starting = ''Starting Centrometal Boiler System %s''"

definition msg_authentication_failed :: string where
  "msg_authentication_failed = ''Authentication failed : %s''"

definition msg_stopping :: string where
  "msg_stopping = ''Stopping Centrometal WebBoilerSystem %s''"

definition msg_failed_to_relogin :: string where
  "msg_failed_to_relogin = ''WebBoilerSystem::tick failed to relogin %s''"

definition msg_trying_to_relogin :: string where
  "msg_trying_to_relogin = ''Centrometal WebBoilerSystem::tick trying to relogin %s''"

definition msg_refresh_data :: string where
  "msg_refresh_data = ''WebBoilerSystem::tick refresh data %s''"

definition msg_tick_raised :: string where
  "msg_tick_raised = ''WebBoilerSystem.tick raised: %s''"

definition msg_scan_failed :: string where
  "msg_scan_failed = ''Watchdog: failed to scan timestamps: %s''"

definition msg_setting_up :: string where
  "msg_setting_up = ''Setting up Centrometal Boiler System component''"

definition msg_access_denied :: string where
  "msg_access_denied = ''Got Access Denied Error when setting up Centrometal Boiler System: %s''"

definition msg_setup_finished :: string where
  "msg_setup_finished = ''Centrometal Boiler System component setup finished %s''"

definition msg_would_reload :: string where
  "msg_would_reload = ''Centrometal watchdog: would reload (''"

definition msg_reloading :: string where
  "msg_reloading = ''Centrometal watchdog: reloading config entry due to ''"

definition emit :: "event \<Rightarrow> hass \<Rightarrow> hass" where
  "emit e h = h\<lparr>trace := trace h @ [e]\<rparr>"

definition call_client :: "world \<Rightarrow> addr \<Rightarrow> client_call \<Rightarrow> hass \<Rightarrow> bool result \<times> hass" where
  "call_client w c m h = (client_reply w (trace h) c m, emit (Client c m) h)"

definition upd_system :: "addr \<Rightarrow> (session \<Rightarrow> session) \<Rightarrow> hass \<Rightarrow> hass" where
  "upd_system self f h = h\<lparr>systems := (systems h)(self := f (systems h self))\<rparr>"

definition upd_store :: "addr \<Rightarrow> (store \<Rightarrow> store) \<Rightarrow> hass \<Rightarrow> hass" where
  "upd_store a f h = h\<lparr>stores := (stores h)(a := f (stores h a))\<rparr>"

definition set_last_relogin :: "addr \<Rightarrow> real \<Rightarrow> hass \<Rightarrow> hass" where
  "set_last_relogin self t h =
     emit (Set_last_relogin self t) (upd_system self (\<lambda>s. s\<lparr>last_relogin_timestamp := t\<rparr>) h)"

definition set_last_refresh :: "addr \<Rightarrow> real \<Rightarrow> hass \<Rightarrow> hass" where
  "set_last_refresh self t h =
     emit (Set_last_refresh self t) (upd_system self (\<lambda>s. s\<lparr>last_refresh_timestamp := t\<rparr>) h)"

text \<open>\<^verbatim>\<open>async_track_time_interval(hass, callback, interval)\<close> returns the handle of a
  new, active timer.\<close>

definition async_track_time_interval :: "callback \<Rightarrow> hass \<Rightarrow> handle \<times> hass" where
  "async_track_time_interval cb h =
     (length (timers h),
      emit (Track_time_interval (length (timers h))) (h\<lparr>timers := timers h @ [cb]\<rparr>))"

text \<open>Invoking a handle: the timer is cancelled; the invocation can raise.\<close>

definition call_unsub :: "world \<Rightarrow> handle \<Rightarrow> hass \<Rightarrow> unit result \<times> hass" where
  "call_unsub w u h =
     (if unsub_raises w (trace h) u then Inl Exception else Inr (),
      emit (Unsub u) (h\<lparr>cancelled := u # cancelled h\<rparr>))"

definition active :: "hass \<Rightarrow> handle \<Rightarrow> bool" where
  "active h u = (u < length (timers h) \<and> u \<notin> set (cancelled h))"

definition active_timers :: "hass \<Rightarrow> handle list" where
  "active_timers h = filter (active h) [0..<length (timers h)]"

text \<open>The active tick timers of a session, and the active watchdogs of an account.\<close>

definition tick_timers :: "hass \<Rightarrow> addr \<Rightarrow> handle list" where
  "tick_timers h self = filter (\<lambda>u. timers h ! u = On_interval self) (active_timers h)"

fun is_watchdog_of :: "string \<Rightarrow> callback \<Rightarrow> bool" where
  "is_watchdog_of user (Watchdog_tick a entry) = (conf_email entry = user)"
| "is_watchdog_of user (On_interval self) = False"

definition watchdogs :: "hass \<Rightarrow> string \<Rightarrow> handle list" where
  "watchdogs h user = filter (\<lambda>u. is_watchdog_of user (timers h ! u)) (active_timers h)"


section \<open>The session controller: class WebBoilerSystem (__init__.py)\<close>

text \<open>\<^verbatim>\<open>__init__\<close>: a new object, both timestamps the current time, no timer.\<close>

definition WebBoilerSystem_init :: "world \<Rightarrow> string \<Rightarrow> hass \<Rightarrow> addr \<times> hass" where
  "WebBoilerSystem_init w user h =
     (let self = next_addr h;
          now_ts = clock w (trace h)
      in (self,
          h\<lparr>next_addr := Suc self,
            systems := (systems h)(self :=
              \<lparr>username = user, last_relogin_timestamp = now_ts,
               last_refresh_timestamp = now_ts, tick_unsub = None\<rparr>)\<rparr>))"

text \<open>The \<^verbatim>\<open>try\<close> block of \<^verbatim>\<open>start\<close>. Each \<^verbatim>\<open>raise Exception(...)\<close> of the block
  and each exception of a client call leaves it with \<open>Inl\<close>.\<close>

definition start_body :: "world \<Rightarrow> addr \<Rightarrow> hass \<Rightarrow> unit result \<times> hass" where
  "start_body w self h0 =
     (case call_client w self Login h0 of
        (Inl e, h1) \<Rightarrow> (Inl e, h1)
      | (Inr logged_in, h1) \<Rightarrow>
          if \<not> logged_in then (Inl Exception, h1)
          else
            (case call_client w self Get_configuration h1 of
               (Inl e, h2) \<Rightarrow> (Inl e, h2)
             | (Inr got_configuration, h2) \<Rightarrow>
                 if \<not> got_configuration then (Inl Exception, h2)
                 else if length (client_data w (trace h2) self) = 0 then (Inl Exception, h2)
                 else
                   (case call_client w self Start_websocket h2 of
                      (Inl e, h3) \<Rightarrow> (Inl e, h3)
                    | (Inr u, h3) \<Rightarrow>
                        (case call_client w self Refresh h3 of
                           (Inl e, h4) \<Rightarrow> (Inl e, h4)
                         | (Inr r, h4) \<Rightarrow>
                             (Inr (), set_last_refresh self (clock w (trace h4)) h4)))))"

definition start :: "world \<Rightarrow> addr \<Rightarrow> hass \<Rightarrow> bool \<times> hass" where
  "start w self h0 =
     (case start_body w self (emit (Log Debug msg_starting) h0) of
        (Inr u, h1) \<Rightarrow> (True, h1)
      | (Inl ex, h1) \<Rightarrow> (False, emit (Log Error msg_authentication_failed) h1))"

text \<open>\<^verbatim>\<open>cancel_tick\<close>: the handle is invoked inside \<^verbatim>\<open>try ... except Exception: pass\<close>,
  so its outcome is dropped.\<close>

definition cancel_tick :: "world \<Rightarrow> addr \<Rightarrow> hass \<Rightarrow> hass" where
  "cancel_tick w self h =
     (case tick_unsub (systems h self) of
        None \<Rightarrow> h
      | Some u \<Rightarrow>
          upd_system self (\<lambda>s. s\<lparr>tick_unsub := None\<rparr>) (snd (call_unsub w u h)))"

definition start_tick :: "world \<Rightarrow> addr \<Rightarrow> hass \<Rightarrow> hass" where
  "start_tick w self h =
     (let h1 = cancel_tick w self h;
          (u, h2) = async_track_time_interval (On_interval self) h1
      in upd_system self (\<lambda>s. s\<lparr>tick_unsub := Some u\<rparr>) h2)"

definition stop :: "world \<Rightarrow> addr \<Rightarrow> hass \<Rightarrow> bool result \<times> hass" where
  "stop w self h =
     call_client w self Close_websocket
       (emit (Log Debug msg_stopping) h)"

text \<open>\<^verbatim>\<open>relogin\<close>. The two closing calls stand in \<^verbatim>\<open>try ... except Exception: pass\<close>;
  the client's \<^verbatim>\<open>relogin\<close>, \<^verbatim>\<open>start_websocket\<close> and \<^verbatim>\<open>refresh\<close> do not, so an
  exception of theirs leaves the method.\<close>

definition relogin :: "world \<Rightarrow> addr \<Rightarrow> hass \<Rightarrow> unit result \<times> hass" where
  "relogin w self h0 =
     (let h1 = set_last_relogin self (clock w (trace h0)) h0;
          h2 = snd (call_client w self Close_websocket h1);
          h3 = snd (call_client w self Close_session h2)
      in case call_client w self Relogin h3 of
           (Inl e, h4) \<Rightarrow> (Inl e, h4)
         | (Inr relogin_successful, h4) \<Rightarrow>
             if relogin_successful then
               (case call_client w self Start_websocket h4 of
                  (Inl e, h5) \<Rightarrow> (Inl e, h5)
                | (Inr u, h5) \<Rightarrow>
                    (case call_client w self Refresh h5 of
                       (Inl e, h6) \<Rightarrow> (Inl e, h6)
                     | (Inr ok, h6) \<Rightarrow>
                         if ok then (Inr (), set_last_refresh self (clock w (trace h6)) h6)
                         else (Inr (), h6)))
             else
               (Inr (), emit (Log Warning msg_failed_to_relogin) h4))"

text \<open>\<^verbatim>\<open>tick\<close>. \<open>conn\<close> is the local \<^verbatim>\<open>connected\<close>: a connectivity read that
  raises counts as disconnected.\<close>

definition tick :: "world \<Rightarrow> addr \<Rightarrow> hass \<Rightarrow> unit result \<times> hass" where
  "tick w self h0 =
     (let now = clock w (trace h0);
          (r, h1) = call_client w self Is_websocket_connected h0;
          conn = (case r of Inl e \<Rightarrow> False | Inr b \<Rightarrow> b)
      in if \<not> conn then
           (if now - last_relogin_timestamp (systems h1 self) > WEB_BOILER_LOGIN_RETRY_INTERVAL w
            then relogin w self
                   (emit (Log Info msg_trying_to_relogin) h1)
            else (Inr (), h1))
         else if now - last_refresh_timestamp (systems h1 self) > WEB_BOILER_REFRESH_INTERVAL w
         then
           (let h2 = set_last_refresh self now h1;
                h3 = emit (Log Info msg_refresh_data) h2
            in case call_client w self Refresh h3 of
                 (Inl e, h4) \<Rightarrow> (Inl e, h4)
               | (Inr refresh_successful, h4) \<Rightarrow>
                   if \<not> refresh_successful then relogin w self h4 else (Inr (), h4))
         else (Inr (), h1))"

text \<open>\<^verbatim>\<open>_on_interval\<close>, the timer's callback: an exception of \<^verbatim>\<open>tick\<close> is logged
  and dropped.\<close>

definition on_interval :: "world \<Rightarrow> addr \<Rightarrow> hass \<Rightarrow> hass" where
  "on_interval w self h =
     (case tick w self h of
        (Inr u, h1) \<Rightarrow> h1
      | (Inl ex, h1) \<Rightarrow> emit (Log Warning msg_tick_raised) h1)"


section \<open>The watchdog (sensor.py)\<close>

text \<open>A new, empty dict stored under \<^verbatim>\<open>hass.data[DOMAIN][username]\<close>.\<close>

definition new_store :: "string \<Rightarrow> hass \<Rightarrow> addr \<times> hass" where
  "new_store user h =
     (let a = next_addr h
      in (a,
          h\<lparr>next_addr := Suc a,
            stores := (stores h)(a := empty_store),
            domain_data := (domain_data h)(user := Some a)\<rparr>))"

text \<open>
  \<^verbatim>\<open>_start_or_replace_watchdog\<close>. \<^verbatim>\<open>setdefault\<close> takes the account's dict, or stores
  a new one; the old handle is popped and invoked inside
  \<^verbatim>\<open>try ... except Exception: pass\<close>; \<^verbatim>\<open>_last_reload_ts\<close> is set to 0 only when the
  key is missing; \<^verbatim>\<open>int(time.time())\<close> is the start timestamp.
\<close>

definition start_or_replace_watchdog :: "world \<Rightarrow> config_entry \<Rightarrow> string \<Rightarrow> hass \<Rightarrow> hass" where
  "start_or_replace_watchdog w entry user h0 =
     (let (a, h1) = (case domain_data h0 user of Some a \<Rightarrow> (a, h0) | None \<Rightarrow> new_store user h0);
          old_unsub = watchdog_unsub (stores h1 a);
          h2 = upd_store a (\<lambda>s. s\<lparr>watchdog_unsub := None\<rparr>) h1;
          h3 = (case old_unsub of None \<Rightarrow> h2 | Some u \<Rightarrow> snd (call_unsub w u h2));
          h4 = upd_store a
                 (\<lambda>s. case last_reload_ts s of None \<Rightarrow> s\<lparr>last_reload_ts := Some 0\<rparr> | Some t \<Rightarrow> s) h3;
          (unsub, h5) = async_track_time_interval (Watchdog_tick a entry) h4;
          h6 = upd_store a (\<lambda>s. s\<lparr>watchdog_unsub := Some unsub\<rparr>) h5
      in upd_store a (\<lambda>s. s\<lparr>watchdog_started_ts := Some (trunc (clock w (trace h6)))\<rparr>) h6)"

text \<open>
  \<^verbatim>\<open>_tick\<close>, the watchdog's callback, for the dict at address \<open>a\<close> that the closure
  holds. The debug line of \<^verbatim>\<open>_latest_param_ts\<close> is logged when the scan is made
  (the account is connected) and an exception left its loops.
\<close>

definition watchdog_tick :: "world \<Rightarrow> addr \<Rightarrow> config_entry \<Rightarrow> hass \<Rightarrow> hass" where
  "watchdog_tick w a entry h0 =
     (case web_boiler_client (stores h0 a) of
        None \<Rightarrow> h0
      | Some client \<Rightarrow>
          (let now_ts = trunc (clock w (trace h0));
               (r, h1) = call_client w client Is_websocket_connected h0;
               conn = (case r of Inl e \<Rightarrow> False | Inr b \<Rightarrow> b);
               cdata = client_data w (trace h1) client;
               h2 = (if conn \<and> latest_param_ts_failed cdata
                     then emit (Log Debug msg_scan_failed) h1
                     else h1)
           in case reload_reason conn cdata now_ts (watchdog_started_ts (stores h2 a)) of
                None \<Rightarrow> h2
              | Some reason \<Rightarrow>
                  (let last_reload = (case last_reload_ts (stores h2 a) of None \<Rightarrow> 0 | Some t \<Rightarrow> t)
                   in if now_ts - last_reload < RELOAD_COOLDOWN_SECONDS then
                        emit (Log Warning
                               (msg_would_reload @ reason
                                @ '') but in cooldown (''
                                @ py_str (RELOAD_COOLDOWN_SECONDS - (now_ts - last_reload))
                                @ ''s remaining)'')) h2
                      else
                        (let h3 = upd_store a (\<lambda>s. s\<lparr>last_reload_ts := Some now_ts\<rparr>) h2;
                             h4 = emit (Log Warning
                                    (msg_reloading
                                     @ reason)) h3;
                             unsub = watchdog_unsub (stores h4 a);
                             h5 = upd_store a (\<lambda>s. s\<lparr>watchdog_unsub := None\<rparr>) h4;
                             h6 = (case unsub of None \<Rightarrow> h5 | Some u \<Rightarrow> snd (call_unsub w u h5))
                         in emit (Create_task_reload (entry_id entry)) h6))))"

text \<open>\<^verbatim>\<open>async_setup_entry\<close> of sensor.py, up to the creation of the entities (which
  reads the client's data and touches neither a timer nor the account's dict). A
  missing key is a KeyError.\<close>

definition sensor_async_setup_entry :: "world \<Rightarrow> config_entry \<Rightarrow> hass \<Rightarrow> unit result \<times> hass" where
  "sensor_async_setup_entry w entry h =
     (let user = conf_email entry in
      case domain_data h user of
        None \<Rightarrow> (Inl Exception, h)
      | Some a \<Rightarrow>
          (case web_boiler_client (stores h a) of
             None \<Rightarrow> (Inl Exception, h)
           | Some client \<Rightarrow> (Inr (), start_or_replace_watchdog w entry user h)))"


section \<open>Set-up, unloading and reloading of a config entry (__init__.py)\<close>

text \<open>\<^verbatim>\<open>hass.config_entries.async_forward_entry_setups\<close> is the platform's: it runs
  \<^verbatim>\<open>async_setup_entry\<close> of the sensor, switch and binary_sensor modules, and an
  exception of one of them is the platform's to log. The latter two only create
  entities.\<close>

definition async_forward_entry_setups :: "world \<Rightarrow> config_entry \<Rightarrow> hass \<Rightarrow> hass" where
  "async_forward_entry_setups w entry h =
     snd (sensor_async_setup_entry w entry (emit (Forward_entry_setups (entry_id entry)) h))"

definition async_unload_platforms :: "world \<Rightarrow> config_entry \<Rightarrow> hass \<Rightarrow> bool \<times> hass" where
  "async_unload_platforms w entry h =
     (unload_platforms_reply w (trace h), emit (Unload_platforms (entry_id entry)) h)"

text \<open>\<^verbatim>\<open>async_setup_entry\<close> of __init__.py.\<close>

definition async_setup_entry :: "world \<Rightarrow> config_entry \<Rightarrow> hass \<Rightarrow> bool \<times> hass" where
  "async_setup_entry w entry h0 =
     (let h1 = emit (Log Debug msg_setting_up) h0;
          (web_boiler_system, h2) = WebBoilerSystem_init w (conf_email entry) h1;
          unique_id = conf_email entry;
          (a, h3) = new_store unique_id h2;
          h4 = upd_store a
                 (\<lambda>s. s\<lparr>web_boiler_system := Some web_boiler_system,
                         web_boiler_client := Some web_boiler_system\<rparr>) h3;
          (ok, h5) = start w web_boiler_system h4;
          h6 = (if \<not> ok
                then emit (Log Error
                  msg_access_denied) h5
                else h5);
          h7 = emit (Listen_once_stop web_boiler_system) h6;
          h8 = start_tick w web_boiler_system h7;
          h9 = async_forward_entry_setups w entry h8
      in (True, emit (Log Debug msg_setup_finished) h9))"

text \<open>\<^verbatim>\<open>async_unload_entry\<close>. \<^verbatim>\<open>system\<close> is the dict's entry when the account has
  a dict (an empty dict has no such entry, so the test \<^verbatim>\<open>if store\<close> changes
  nothing); the exceptions of \<^verbatim>\<open>cancel_tick\<close> and \<^verbatim>\<open>stop\<close> are dropped; the account's
  dict is removed from \<^verbatim>\<open>hass.data[DOMAIN]\<close>.\<close>

definition async_unload_entry :: "world \<Rightarrow> config_entry \<Rightarrow> hass \<Rightarrow> bool \<times> hass" where
  "async_unload_entry w entry h0 =
     (let unique_id = conf_email entry;
          system = (case domain_data h0 unique_id of
                      None \<Rightarrow> None
                    | Some a \<Rightarrow> web_boiler_system (stores h0 a));
          h1 = (case system of
                  None \<Rightarrow> h0
                | Some sys \<Rightarrow> snd (stop w sys (cancel_tick w sys h0)));
          (unload_ok, h2) = async_unload_platforms w entry h1
      in (unload_ok, h2\<lparr>domain_data := (domain_data h2)(unique_id := None)\<rparr>))"

text \<open>\<^verbatim>\<open>hass.config_entries.async_reload\<close>, the platform's reload of a config entry:
  the entry is unloaded and, when that succeeded, set up again.\<close>

definition async_reload :: "world \<Rightarrow> config_entry \<Rightarrow> hass \<Rightarrow> hass" where
  "async_reload w entry h =
     (let (unload_ok, h1) = async_unload_entry w entry h
      in if unload_ok then snd (async_setup_entry w entry h1) else h1)"

text \<open>The platform's timer facility running the callback of a timer, when the timer
  is active.\<close>

definition fire :: "world \<Rightarrow> handle \<Rightarrow> hass \<Rightarrow> hass" where
  "fire w u h =
     (if active h u then
        (case timers h ! u of
           On_interval self \<Rightarrow> on_interval w self h
         | Watchdog_tick a entry \<Rightarrow> watchdog_tick w a entry h)
      else h)"

text \<open>The state of a process that has not set up any entry yet.\<close>

definition hass0 :: hass where
  "hass0 =
     \<lparr>trace = [], timers = [], cancelled = [],
      systems = (\<lambda>a. \<lparr>username = [], last_relogin_timestamp = 0,
                      last_refresh_timestamp = 0, tick_unsub = None\<rparr>),
      stores = (\<lambda>a. empty_store), next_addr = 0, domain_data = (\<lambda>user. None)\<rparr>"


section \<open>Measures on traces, and concrete inputs\<close>

text \<open>Every run of \<^verbatim>\<open>relogin\<close> writes \<^verbatim>\<open>last_relogin_timestamp\<close> once, and nothing else
  writes it after \<^verbatim>\<open>__init__\<close>: the writes in a trace count the runs of \<^verbatim>\<open>relogin\<close>.\<close>

fun is_set_last_relogin :: "event \<Rightarrow> bool" where
  "is_set_last_relogin (Set_last_relogin a t) = True"
| "is_set_last_relogin e = False"

fun is_create_task_reload :: "event \<Rightarrow> bool" where
  "is_create_task_reload (Create_task_reload e) = True"
| "is_create_task_reload e = False"

definition entry0 :: config_entry where
  "entry0 = \<lparr>entry_id = ''entry'', conf_email = ''user''\<rparr>"

text \<open>A world whose websocket is down and whose client otherwise succeeds.\<close>

definition w_disconnected :: world where
  "w_disconnected =
     \<lparr>clock = (\<lambda>tr. 100),
      client_reply = (\<lambda>tr c m. if m = Is_websocket_connected then Inr False else Inr True),
      client_data = (\<lambda>tr c. []),
      unsub_raises = (\<lambda>tr u. False),
      unload_platforms_reply = (\<lambda>tr. True),
      WEB_BOILER_LOGIN_RETRY_INTERVAL = 10,
      WEB_BOILER_REFRESH_INTERVAL = 10\<rparr>"

text \<open>A world whose websocket is up and whose refresh reports failure, at a time
  when the refresh interval (99 s) was exceeded by one second.\<close>

definition w_refresh_fails :: world where
  "w_refresh_fails =
     \<lparr>clock = (\<lambda>tr. 100),
      client_reply = (\<lambda>tr c m. if m = Refresh then Inr False else Inr True),
      client_data = (\<lambda>tr c. []),
      unsub_raises = (\<lambda>tr u. False),
      unload_platforms_reply = (\<lambda>tr. True),
      WEB_BOILER_LOGIN_RETRY_INTERVAL = 10,
      WEB_BOILER_REFRESH_INTERVAL = 99\<rparr>"

definition data_two_timestamps :: "device list" where
  "data_two_timestamps =
     [\<lparr>parameters = Some [\<lparr>timestamp = Some (PyInt 1000)\<rparr>,
                          \<lparr>timestamp = Some (PyStr (Some 2000))\<rparr>]\<rparr>]"


definition data_inf_first :: "device list" where
  "data_inf_first =
     [\<lparr>parameters = Some [\<lparr>timestamp = Some PyFloat_inf\<rparr>,
                          \<lparr>timestamp = Some (PyInt 1700000000)\<rparr>]\<rparr>]"


definition data_inf_between :: "device list" where
  "data_inf_between =
     [\<lparr>parameters = Some [\<lparr>timestamp = Some (PyInt 1700000000)\<rparr>,
                          \<lparr>timestamp = Some PyFloat_inf\<rparr>,
                          \<lparr>timestamp = Some (PyInt 1700001000)\<rparr>]\<rparr>]"

text \<open>
  The maximum timestamp of an account's parameters in the words of the specification:
  the greatest of the timestamps that \<^verbatim>\<open>int()\<close> converts, over every parameter of every
  device, and none when no timestamp converts. It is not taken from the source; the
  scan of the source is compared with it.
\<close>

definition param_timestamps :: "param list \<Rightarrow> int list" where
  "param_timestamps ps =
     concat (map (\<lambda>p. case timestamp p of
                         None \<Rightarrow> []
                       | Some v \<Rightarrow> (case py_int v of Inl e \<Rightarrow> [] | Inr n \<Rightarrow> [n])) ps)"

definition convertible_timestamps :: "device list \<Rightarrow> int list" where
  "convertible_timestamps data =
     concat (map (\<lambda>d. case parameters d of None \<Rightarrow> [] | Some ps \<Rightarrow> param_timestamps ps) data)"

definition spec_max_timestamp :: "device list \<Rightarrow> int option" where
  "spec_max_timestamp data =
     (case convertible_timestamps data of [] \<Rightarrow> None | t # ts \<Rightarrow> Some (fold max ts t))"

text \<open>Data in which no timestamp makes \<^verbatim>\<open>int()\<close> raise OverflowError.\<close>

definition raises_overflow :: "param \<Rightarrow> bool" where
  "raises_overflow p =
     (case timestamp p of None \<Rightarrow> False | Some v \<Rightarrow> py_int v = Inl OverflowError)"

definition no_overflow :: "device list \<Rightarrow> bool" where
  "no_overflow data =
     list_all (\<lambda>d. case parameters d of
                     None \<Rightarrow> True
                   | Some ps \<Rightarrow> list_all (\<lambda>p. \<not> raises_overflow p) ps) data"

text \<open>One step of the scan on the local \<^verbatim>\<open>latest\<close>, for a converted timestamp.\<close>

definition later :: "int option \<Rightarrow> int \<Rightarrow> int option" where
  "later latest t = (case latest of None \<Rightarrow> Some t | Some l \<Rightarrow> Some (max t l))"


text \<open>
  The invariant of a session's tick timer: every active timer that runs the session's
  \<^verbatim>\<open>_on_interval\<close> is the one whose handle \<^verbatim>\<open>_tick_unsub\<close> holds.
\<close>

definition tick_inv :: "hass \<Rightarrow> addr \<Rightarrow> bool" where
  "tick_inv h self = list_all (\<lambda>u. tick_unsub (systems h self) = Some u) (tick_timers h self)"

text \<open>The methods of a session, to state properties of every sequence of calls.\<close>

datatype session_op =
  Op_start | Op_start_tick | Op_cancel_tick | Op_stop | Op_tick | Op_relogin | Op_on_interval

fun run_op :: "world \<Rightarrow> addr \<Rightarrow> session_op \<Rightarrow> hass \<Rightarrow> hass" where
  "run_op w self Op_start h = snd (start w self h)"
| "run_op w self Op_start_tick h = start_tick w self h"
| "run_op w self Op_cancel_tick h = cancel_tick w self h"
| "run_op w self Op_stop h = snd (stop w self h)"
| "run_op w self Op_tick h = snd (tick w self h)"
| "run_op w self Op_relogin h = snd (relogin w self h)"
| "run_op w self Op_on_interval h = on_interval w self h"

fun run_ops :: "world \<Rightarrow> addr \<Rightarrow> session_op list \<Rightarrow> hass \<Rightarrow> hass" where
  "run_ops w self [] h = h"
| "run_ops w self (x # xs) h = run_ops w self xs (run_op w self x h)"


text \<open>The state in which \<^verbatim>\<open>async_setup_entry\<close> calls \<^verbatim>\<open>start\<close>: its first steps,
  as they stand in its definition, named to state lemmas about the call.\<close>

definition before_start :: "world \<Rightarrow> config_entry \<Rightarrow> hass \<Rightarrow> hass" where
  "before_start w entry h0 =
     (let h1 = emit (Log Debug msg_setting_up) h0;
          (web_boiler_system, h2) = WebBoilerSystem_init w (conf_email entry) h1;
          (a, h3) = new_store (conf_email entry) h2
      in upd_store a
           (\<lambda>s. s\<lparr>web_boiler_system := Some web_boiler_system,
                   web_boiler_client := Some web_boiler_system\<rparr>) h3)"

text \<open>The reload tasks that were created, in order.\<close>

definition reloads :: "hass \<Rightarrow> event list" where
  "reloads h = filter is_create_task_reload (trace h)"

text \<open>A world in which every call of the client returns false: no login.\<close>

definition w_login_false :: world where
  "w_login_false =
     \<lparr>clock = (\<lambda>tr. 1700000000),
      client_reply = (\<lambda>tr c m. Inr False),
      client_data = (\<lambda>tr c. []),
      unsub_raises = (\<lambda>tr u. False),
      unload_platforms_reply = (\<lambda>tr. True),
      WEB_BOILER_LOGIN_RETRY_INTERVAL = 10,
      WEB_BOILER_REFRESH_INTERVAL = 10\<rparr>"

text \<open>A world whose client logs in and refreshes but whose websocket never comes up,
  and in which 121 seconds pass between one reload task and the next watchdog check.\<close>

definition w_down :: world where
  "w_down =
     \<lparr>clock = (\<lambda>tr. 1700000000 + 121 * real (length (filter is_create_task_reload tr))),
      client_reply = (\<lambda>tr c m. if m = Is_websocket_connected then Inr False else Inr True),
      client_data = (\<lambda>tr c. [\<lparr>parameters = Some []\<rparr>]),
      unsub_raises = (\<lambda>tr u. False),
      unload_platforms_reply = (\<lambda>tr. True),
      WEB_BOILER_LOGIN_RETRY_INTERVAL = 10,
      WEB_BOILER_REFRESH_INTERVAL = 10\<rparr>"


section \<open>Shared lemmas\<close>

lemmas prim_defs =
  call_client_def emit_def set_last_relogin_def set_last_refresh_def upd_system_def
  upd_store_def

lemma py_str_601: "py_str 601 = ''601''"
  by code_simp

lemma py_str_600: "py_str 600 = ''600''"
  by code_simp

lemma relogin_trace:
  "\<exists>es. trace (snd (relogin w self h)) =
          trace h @ Set_last_relogin self (clock w (trace h)) # es
      \<and> filter is_set_last_relogin es = []"
  by (simp add: relogin_def prim_defs Let_def split: prod.splits sum.splits)


subsection \<open>What the methods leave unchanged\<close>

lemma emit_frame [simp]:
  "timers (emit e h) = timers h" "cancelled (emit e h) = cancelled h"
  "stores (emit e h) = stores h" "domain_data (emit e h) = domain_data h"
  "next_addr (emit e h) = next_addr h" "systems (emit e h) = systems h"
  "trace (emit e h) = trace h @ [e]"
  by (simp_all add: emit_def)

lemma call_client_frame [simp]:
  "timers (snd (call_client w c m h)) = timers h"
  "cancelled (snd (call_client w c m h)) = cancelled h"
  "stores (snd (call_client w c m h)) = stores h"
  "domain_data (snd (call_client w c m h)) = domain_data h"
  "next_addr (snd (call_client w c m h)) = next_addr h"
  "systems (snd (call_client w c m h)) = systems h"
  "trace (snd (call_client w c m h)) = trace h @ [Client c m]"
  by (simp_all add: call_client_def)

lemma start_body_frame:
  "timers (snd (start_body w self h)) = timers h"
  "cancelled (snd (start_body w self h)) = cancelled h"
  "stores (snd (start_body w self h)) = stores h"
  "domain_data (snd (start_body w self h)) = domain_data h"
  "next_addr (snd (start_body w self h)) = next_addr h"
  "tick_unsub (systems (snd (start_body w self h)) a) = tick_unsub (systems h a)"
  by (simp_all add: start_body_def call_client_def set_last_refresh_def upd_system_def
        split: sum.splits)

lemma start_frame [simp]:
  "timers (snd (start w self h)) = timers h"
  "cancelled (snd (start w self h)) = cancelled h"
  "stores (snd (start w self h)) = stores h"
  "domain_data (snd (start w self h)) = domain_data h"
  "next_addr (snd (start w self h)) = next_addr h"
  "tick_unsub (systems (snd (start w self h)) a) = tick_unsub (systems h a)"
proof -
  define h0 where "h0 = emit (Log Debug msg_starting) h"
  obtain r h1 where t: "start_body w self h0 = (r, h1)" by (cases "start_body w self h0")
  have f: "timers h1 = timers h" "cancelled h1 = cancelled h" "stores h1 = stores h"
    "domain_data h1 = domain_data h" "next_addr h1 = next_addr h"
    "tick_unsub (systems h1 a) = tick_unsub (systems h a)"
    using start_body_frame [of w self h0, unfolded t snd_conv] by (simp_all add: h0_def)
  show "timers (snd (start w self h)) = timers h"
  "cancelled (snd (start w self h)) = cancelled h"
  "stores (snd (start w self h)) = stores h"
  "domain_data (snd (start w self h)) = domain_data h"
  "next_addr (snd (start w self h)) = next_addr h"
  "tick_unsub (systems (snd (start w self h)) a) = tick_unsub (systems h a)"
    using f by (simp_all add: start_def t h0_def [symmetric] split: sum.splits)
qed

lemma relogin_frame [simp]:
  "timers (snd (relogin w self h)) = timers h"
  "cancelled (snd (relogin w self h)) = cancelled h"
  "stores (snd (relogin w self h)) = stores h"
  "domain_data (snd (relogin w self h)) = domain_data h"
  "next_addr (snd (relogin w self h)) = next_addr h"
  "tick_unsub (systems (snd (relogin w self h)) a) = tick_unsub (systems h a)"
  by (simp_all add: relogin_def call_client_def set_last_refresh_def set_last_relogin_def
        upd_system_def Let_def split: sum.splits)

lemma tick_frame [simp]:
  "timers (snd (tick w self h)) = timers h"
  "cancelled (snd (tick w self h)) = cancelled h"
  "stores (snd (tick w self h)) = stores h"
  "domain_data (snd (tick w self h)) = domain_data h"
  "next_addr (snd (tick w self h)) = next_addr h"
  "tick_unsub (systems (snd (tick w self h)) a) = tick_unsub (systems h a)"
  by (simp_all add: tick_def call_client_def set_last_refresh_def
        upd_system_def Let_def split: sum.splits)

lemma stop_frame [simp]:
  "timers (snd (stop w self h)) = timers h"
  "cancelled (snd (stop w self h)) = cancelled h"
  "stores (snd (stop w self h)) = stores h"
  "domain_data (snd (stop w self h)) = domain_data h"
  "next_addr (snd (stop w self h)) = next_addr h"
  "systems (snd (stop w self h)) = systems h"
  by (simp_all add: stop_def)

lemma on_interval_frame [simp]:
  "timers (on_interval w self h) = timers h"
  "cancelled (on_interval w self h) = cancelled h"
  "stores (on_interval w self h) = stores h"
  "domain_data (on_interval w self h) = domain_data h"
  "next_addr (on_interval w self h) = next_addr h"
  "tick_unsub (systems (on_interval w self h) a) = tick_unsub (systems h a)"
proof -
  obtain r h1 where t: "tick w self h = (r, h1)" by (cases "tick w self h")
  have f: "timers h1 = timers h" "cancelled h1 = cancelled h" "stores h1 = stores h"
    "domain_data h1 = domain_data h" "next_addr h1 = next_addr h"
    "tick_unsub (systems h1 a) = tick_unsub (systems h a)"
    using tick_frame [of w self h, unfolded t snd_conv] by simp_all
  show "timers (on_interval w self h) = timers h"
  "cancelled (on_interval w self h) = cancelled h"
  "stores (on_interval w self h) = stores h"
  "domain_data (on_interval w self h) = domain_data h"
  "next_addr (on_interval w self h) = next_addr h"
  "tick_unsub (systems (on_interval w self h) a) = tick_unsub (systems h a)"
    using f by (simp_all add: on_interval_def t split: sum.splits)
qed

subsection \<open>The tick timer\<close>

lemma tick_timers_iff:
  "u \<in> set (tick_timers h self) \<longleftrightarrow>
     u < length (timers h) \<and> u \<notin> set (cancelled h) \<and> timers h ! u = On_interval self"
  by (auto simp: tick_timers_def active_timers_def active_def)

lemma tick_timers_distinct: "distinct (tick_timers h self)"
  by (simp add: tick_timers_def active_timers_def)

lemma tick_timers_cong:
  "timers h' = timers h \<Longrightarrow> cancelled h' = cancelled h \<Longrightarrow>
     tick_timers h' self = tick_timers h self"
  by (simp add: tick_timers_def active_timers_def active_def)

lemma tick_inv_iff:
  "tick_inv h self \<longleftrightarrow> set (tick_timers h self) \<subseteq> set_option (tick_unsub (systems h self))"
  by (auto simp: tick_inv_def list_all_iff)

lemma tick_inv_cong:
  "timers h' = timers h \<Longrightarrow> cancelled h' = cancelled h \<Longrightarrow>
   tick_unsub (systems h' self) = tick_unsub (systems h self) \<Longrightarrow>
     tick_inv h' self = tick_inv h self"
  using tick_timers_cong [of h' h self] by (simp add: tick_inv_def)

lemma tick_inv_le1:
  assumes "tick_inv h self"
  shows "length (tick_timers h self) \<le> 1"
proof -
  have "card (set (tick_timers h self)) \<le> card (set_option (tick_unsub (systems h self)))"
    using assms by (intro card_mono) (auto simp: tick_inv_iff)
  also have "\<dots> \<le> 1" by (cases "tick_unsub (systems h self)") simp_all
  finally show ?thesis
    by (simp add: distinct_card [OF tick_timers_distinct])
qed

lemma cancel_tick_None:
  "tick_unsub (systems h self) = None \<Longrightarrow> cancel_tick w self h = h"
  by (simp add: cancel_tick_def)

lemma cancel_tick_Some:
  assumes "tick_unsub (systems h self) = Some u"
  shows "timers (cancel_tick w self h) = timers h"
    "cancelled (cancel_tick w self h) = u # cancelled h"
    "tick_unsub (systems (cancel_tick w self h) self) = None"
    "trace (cancel_tick w self h) = trace h @ [Unsub u]"
  using assms by (simp_all add: cancel_tick_def call_unsub_def upd_system_def)

lemma cancel_tick_frame [simp]:
  "timers (cancel_tick w self h) = timers h"
  "stores (cancel_tick w self h) = stores h"
  "domain_data (cancel_tick w self h) = domain_data h"
  "next_addr (cancel_tick w self h) = next_addr h"
  "tick_unsub (systems (cancel_tick w self h) self) = None"
  by (simp_all add: cancel_tick_def call_unsub_def upd_system_def split: option.splits)

lemma cancel_tick_no_timers:
  assumes "tick_inv h self"
  shows "tick_timers (cancel_tick w self h) self = []"
proof (cases "tick_unsub (systems h self)")
  case None
  with assms show ?thesis
    by (cases "tick_timers h self") (simp_all add: cancel_tick_None tick_inv_def)
next
  case (Some u)
  have "u' \<notin> set (tick_timers (cancel_tick w self h) self)" for u'
  proof
    assume a: "u' \<in> set (tick_timers (cancel_tick w self h) self)"
    then have 1: "u' < length (timers h)" "u' \<notin> set (u # cancelled h)"
      "timers h ! u' = On_interval self"
      by (simp_all add: tick_timers_iff cancel_tick_Some [OF Some])
    then have "u' \<in> set (tick_timers h self)" by (simp add: tick_timers_iff)
    with assms Some have "u' = u" by (auto simp: tick_inv_iff)
    with 1 show False by simp
  qed
  then show ?thesis
    by (metis list.set_intros(1) neq_Nil_conv)
qed

lemma start_tick_props:
  "timers (start_tick w self h) = timers h @ [On_interval self]"
  "cancelled (start_tick w self h) = cancelled (cancel_tick w self h)"
  "tick_unsub (systems (start_tick w self h) self) = Some (length (timers h))"
  "trace (start_tick w self h) =
     trace (cancel_tick w self h) @ [Track_time_interval (length (timers h))]"
  "stores (start_tick w self h) = stores h"
  "domain_data (start_tick w self h) = domain_data h"
  "next_addr (start_tick w self h) = next_addr h"
  by (simp_all add: start_tick_def async_track_time_interval_def upd_system_def Let_def)

lemma start_tick_inv:
  assumes "tick_inv h self"
  shows "tick_inv (start_tick w self h) self"
proof -
  have e: "tick_timers (cancel_tick w self h) self = []"
    by (rule cancel_tick_no_timers [OF assms])
  have "u = length (timers h)" if "u \<in> set (tick_timers (start_tick w self h) self)" for u
  proof (rule ccontr)
    assume n: "u \<noteq> length (timers h)"
    from that have "u < length (timers h)" "u \<notin> set (cancelled (cancel_tick w self h))"
      "timers h ! u = On_interval self"
      using n by (auto simp: tick_timers_iff start_tick_props nth_append)
    then have "u \<in> set (tick_timers (cancel_tick w self h) self)"
      by (simp add: tick_timers_iff)
    with e show False by simp
  qed
  then show ?thesis
    by (auto simp: tick_inv_iff start_tick_props)
qed

lemma cancel_tick_inv:
  assumes "tick_inv h self"
  shows "tick_inv (cancel_tick w self h) self"
  by (simp add: tick_inv_def cancel_tick_no_timers [OF assms])

lemma run_op_inv:
  assumes "tick_inv h self"
  shows "tick_inv (run_op w self x h) self"
proof (cases x)
  case Op_start_tick
  then show ?thesis by (simp add: start_tick_inv [OF assms])
next
  case Op_cancel_tick
  then show ?thesis by (simp add: cancel_tick_inv [OF assms])
qed (simp_all add: tick_inv_cong [THEN iffD2, OF _ _ _ assms])

lemma run_ops_inv:
  "tick_inv h self \<Longrightarrow> tick_inv (run_ops w self xs h) self"
proof (induction xs arbitrary: h)
  case Nil
  then show ?case by simp
next
  case (Cons x xs)
  have "tick_inv (run_op w self x h) self" by (rule run_op_inv [OF Cons.prems])
  then have "tick_inv (run_ops w self xs (run_op w self x h)) self" by (rule Cons.IH)
  then show ?case by simp
qed


section \<open>The watchdog's reload reason\<close>

subsection \<open>The scan against the maximum timestamp\<close>

lemma later_simps:
  "later None t = Some t" "later (Some l) t = (if t > l then Some t else Some l)"
  by (simp_all add: later_def max_def)

lemma scan_params_no_overflow:
  "list_all (\<lambda>p. \<not> raises_overflow p) ps \<Longrightarrow>
     scan_params ps latest = (fold (\<lambda>t l. later l t) (param_timestamps ps) latest, None)"
proof (induction ps arbitrary: latest)
  case Nil
  show ?case by (simp add: param_timestamps_def)
next
  case (Cons p ps)
  from Cons.prems have r: "list_all (\<lambda>p. \<not> raises_overflow p) ps" and o: "\<not> raises_overflow p"
    by simp_all
  note ih = Cons.IH [OF r]
  show ?case
  proof (cases "timestamp p")
    case None
    then show ?thesis by (simp add: ih param_timestamps_def)
  next
    case (Some v)
    show ?thesis
    proof (cases "py_int v")
      case (Inl e)
      with o Some have "e = ValueError \<or> e = TypeError"
        by (cases v rule: py_int.cases) (auto simp: raises_overflow_def)
      with Inl Some show ?thesis by (auto simp: ih param_timestamps_def)
    next
      case (Inr n)
      with Some have "v \<noteq> PyNone" by auto
      with Inr Some show ?thesis
        by (simp add: ih param_timestamps_def later_simps split: option.splits)
    qed
  qed
qed

lemma scan_devices_no_overflow:
  "no_overflow data \<Longrightarrow>
     scan_devices data latest = (fold (\<lambda>t l. later l t) (convertible_timestamps data) latest, None)"
proof (induction data arbitrary: latest)
  case Nil
  show ?case by (simp add: convertible_timestamps_def)
next
  case (Cons d ds)
  from Cons.prems have r: "no_overflow ds" by (simp add: no_overflow_def)
  have c: "convertible_timestamps (d # ds) =
      (case parameters d of None \<Rightarrow> [] | Some ps \<Rightarrow> param_timestamps ps)
      @ convertible_timestamps ds"
    by (simp add: convertible_timestamps_def)
  show ?case
  proof (cases "parameters d")
    case None
    then show ?thesis by (simp add: c Cons.IH [OF r])
  next
    case (Some ps)
    with Cons.prems have "list_all (\<lambda>p. \<not> raises_overflow p) ps" by (simp add: no_overflow_def)
    from scan_params_no_overflow [OF this] Some show ?thesis
      by (simp add: c Cons.IH [OF r])
  qed
qed

lemma fold_later: "fold (\<lambda>t l. later l t) ts (Some t) = Some (fold max ts t)"
  by (induction ts arbitrary: t) (simp_all add: later_def)

text \<open>Without a timestamp that raises OverflowError, the scan returns the maximum, and
  the watchdog's staleness check is the one of the specification.\<close>

lemma latest_param_ts_is_max:
  "no_overflow data \<Longrightarrow> latest_param_ts data = spec_max_timestamp data"
  by (cases "convertible_timestamps data")
     (simp_all add: latest_param_ts_def scan_devices_no_overflow spec_max_timestamp_def
        fold_later later_simps(1))

lemma watchdog_staleness_without_overflow:
  "no_overflow cdata \<Longrightarrow> spec_max_timestamp cdata = Some T \<Longrightarrow>
     reload_reason True cdata (T + STALE_SECONDS + 1) started
       = Some ''stale data (601s > 600s)''
   \<and> reload_reason True cdata (T + STALE_SECONDS - 1) started = None"
  by (simp add: reload_reason_def latest_param_ts_is_max STALE_SECONDS_def py_str_601 py_str_600)

lemma watchdog_staleness_example:
  "no_overflow data_two_timestamps
   \<and> spec_max_timestamp data_two_timestamps = Some 2000
   \<and> reload_reason True data_two_timestamps 2601 None = Some ''stale data (601s > 600s)''
   \<and> reload_reason True data_two_timestamps 2599 None = None"
proof -
  have n: "no_overflow data_two_timestamps"
    by (simp add: no_overflow_def data_two_timestamps_def raises_overflow_def)
  have m: "spec_max_timestamp data_two_timestamps = Some 2000"
    by (simp add: spec_max_timestamp_def convertible_timestamps_def param_timestamps_def
          data_two_timestamps_def)
  from watchdog_staleness_without_overflow [OF n m, of None] n m
  show ?thesis by (simp add: STALE_SECONDS_def)
qed

lemma watchdog_disconnected_reason:
  "reload_reason False cdata now_ts started = Some ''websocket disconnected''"
  by (simp add: reload_reason_def)

lemma py_str_1599: "py_str 1599 = ''1599''"
  by code_simp

text \<open>
  Claim C6, at two inputs where the code departs from it. In both the account is
  connected and one timestamp is the float infinity, on which the scan ends.

  In the first the maximum timestamp is \<open>T = 1700000000\<close>, held by the parameter after
  the infinity. At \<open>T + STALE_SECONDS + 1\<close> the claim gives the reason "stale data";
  the scan has returned \<^verbatim>\<open>None\<close>, so the code gives no reason when the watchdog started
  101 s ago, and the reason "no timestamps available" when it started 601 s ago.

  In the second the maximum is \<open>T = 1700001000\<close>, again behind the infinity, and the scan
  returns the timestamp before it, 1700000000. At \<open>T + STALE_SECONDS - 1\<close> the claim
  gives no reason; the code gives "stale data", with an age of 1599 s.

  The last part of the claim holds at these inputs too: disconnected, the reason is
  "websocket disconnected".
\<close>

theorem watchdog_staleness_after_overflow:
  "spec_max_timestamp data_inf_first = Some 1700000000
   \<and> reload_reason True data_inf_first (1700000000 + STALE_SECONDS + 1) (Some 1700000500) = None
   \<and> reload_reason True data_inf_first (1700000000 + STALE_SECONDS + 1) (Some 1700000000)
       = Some ''no timestamps available''
   \<and> spec_max_timestamp data_inf_between = Some 1700001000
   \<and> reload_reason True data_inf_between (1700001000 + STALE_SECONDS - 1) started
       = Some ''stale data (1599s > 600s)''
   \<and> reload_reason False data_inf_first now_ts started' = Some ''websocket disconnected''"
  by (simp add: spec_max_timestamp_def convertible_timestamps_def param_timestamps_def
        data_inf_first_def data_inf_between_def reload_reason_def latest_param_ts_def
        STALE_SECONDS_def WATCHDOG_INTERVAL_def py_str_1599 py_str_600)




section \<open>The timestamp scan\<close>

text \<open>
  Claim C10, at an input where the code departs from it. The first parameter's
  timestamp is the float infinity, the second's the int 1700000000. \<^verbatim>\<open>int(inf)\<close>
  raises OverflowError, which the inner handler does not take: the scan ends there and
  returns \<^verbatim>\<open>None\<close>, although a parameter with a convertible timestamp exists.
\<close>

theorem latest_param_ts_stops_at_overflow:
  "latest_param_ts data_inf_first = None"
  by (simp add: latest_param_ts_def data_inf_first_def)


section \<open>relogin and tick\<close>

text \<open>
  Claim C4. Whatever the client answers, \<^verbatim>\<open>relogin\<close> leaves
  \<^verbatim>\<open>last_relogin_timestamp\<close> at the time of its invocation, and the write is the first
  thing it does: the write, then closing the websocket, closing the transport session
  and the client's relogin are the first four events it adds to the trace.
\<close>

theorem relogin_sets_timestamp_first:
  "last_relogin_timestamp (systems (snd (relogin w self h)) self) = clock w (trace h)
   \<and> take (length (trace h) + 4) (trace (snd (relogin w self h))) =
       trace h @ [Set_last_relogin self (clock w (trace h)), Client self Close_websocket,
                  Client self Close_session, Client self Relogin]"
  by (simp add: relogin_def prim_defs Let_def split: prod.splits sum.splits)




text \<open>
  Claim C5. In a tick that finds the websocket up while more than the refresh interval
  has passed since \<^verbatim>\<open>last_refresh_timestamp\<close> (so also when exactly the interval plus
  one second has passed), \<^verbatim>\<open>last_refresh_timestamp\<close> holds the current time when the
  refresh is issued: the write stands before the refresh in the trace. When the refresh
  returns false, the rest of the tick is one run of \<^verbatim>\<open>relogin\<close>, and the tick writes
  \<^verbatim>\<open>last_relogin_timestamp\<close> exactly once.
\<close>

theorem tick_connected_refresh:
  assumes conn: "client_reply w (trace h) self Is_websocket_connected = Inr True"
    and due: "clock w (trace h) - last_refresh_timestamp (systems h self)
                > WEB_BOILER_REFRESH_INTERVAL w
       \<or> clock w (trace h) - last_refresh_timestamp (systems h self)
                = WEB_BOILER_REFRESH_INTERVAL w + 1"
  shows "(let now = clock w (trace h);
              h3 = emit (Log Info msg_refresh_data)
                     (set_last_refresh self now (emit (Client self Is_websocket_connected) h));
              h4 = emit (Client self Refresh) h3
          in last_refresh_timestamp (systems h3 self) = now
           \<and> take (length (trace h4)) (trace (snd (tick w self h))) = trace h4
           \<and> trace h4 = trace h @ [Client self Is_websocket_connected, Set_last_refresh self now,
                 Log Info msg_refresh_data, Client self Refresh]
           \<and> (if client_reply w (trace h3) self Refresh = Inr False
               then tick w self h = relogin w self h4
                  \<and> length (filter is_set_last_relogin
                        (drop (length (trace h)) (trace (snd (tick w self h))))) = 1
               else True))"
proof -
  have due': "clock w (trace h) - last_refresh_timestamp (systems h self)
                > WEB_BOILER_REFRESH_INTERVAL w"
    using due by auto
  define now where "now = clock w (trace h)"
  define h3 where "h3 = emit (Log Info msg_refresh_data)
                     (set_last_refresh self now (emit (Client self Is_websocket_connected) h))"
  define h4 where "h4 = emit (Client self Refresh) h3"
  have tr4: "trace h4 = trace h @ [Client self Is_websocket_connected, Set_last_refresh self now,
                 Log Info msg_refresh_data, Client self Refresh]"
    by (simp add: h4_def h3_def prim_defs)
  have st3: "last_refresh_timestamp (systems h3 self) = now"
    by (simp add: h3_def prim_defs)
  have tk: "tick w self h =
      (case client_reply w (trace h3) self Refresh of
         Inl e \<Rightarrow> (Inl e, h4)
       | Inr ok \<Rightarrow> if \<not> ok then relogin w self h4 else (Inr (), h4))"
    using conn due'
    by (simp add: tick_def call_client_def Let_def h3_def h4_def now_def emit_def
          set_last_refresh_def upd_system_def split: sum.splits)
  have pre: "take (length (trace h4)) (trace (snd (tick w self h))) = trace h4"
    using relogin_trace [of w self h4]
    by (auto simp: tk split: sum.splits)
  have once: "tick w self h = relogin w self h4
      \<and> length (filter is_set_last_relogin
            (drop (length (trace h)) (trace (snd (tick w self h))))) = 1"
    if f: "client_reply w (trace h3) self Refresh = Inr False"
  proof -
    have eq: "tick w self h = relogin w self h4" by (simp add: tk f)
    obtain es where es: "trace (snd (relogin w self h4)) =
           trace h4 @ Set_last_relogin self (clock w (trace h4)) # es"
      and none: "filter is_set_last_relogin es = []"
      using relogin_trace [of w self h4] by blast
    show ?thesis by (simp add: eq es tr4 none)
  qed
  have "last_refresh_timestamp (systems h3 self) = now
           \<and> take (length (trace h4)) (trace (snd (tick w self h))) = trace h4
           \<and> trace h4 = trace h @ [Client self Is_websocket_connected, Set_last_refresh self now,
                 Log Info msg_refresh_data, Client self Refresh]
           \<and> (if client_reply w (trace h3) self Refresh = Inr False
               then tick w self h = relogin w self h4
                  \<and> length (filter is_set_last_relogin
                        (drop (length (trace h)) (trace (snd (tick w self h))))) = 1
               else True)"
  proof (intro conjI)
    show "last_refresh_timestamp (systems h3 self) = now" by (rule st3)
    show "take (length (trace h4)) (trace (snd (tick w self h))) = trace h4" by (rule pre)
    show "trace h4 = trace h @ [Client self Is_websocket_connected, Set_last_refresh self now,
                 Log Info msg_refresh_data, Client self Refresh]"
      by (rule tr4)
    show "if client_reply w (trace h3) self Refresh = Inr False
               then tick w self h = relogin w self h4
                  \<and> length (filter is_set_last_relogin
                        (drop (length (trace h)) (trace (snd (tick w self h))))) = 1
               else True"
    proof (cases "client_reply w (trace h3) self Refresh = Inr False")
      case True
      from once [OF True] True show ?thesis by auto
    next
      case False
      then show ?thesis by (simp only: if_False)
    qed
  qed
  then show ?thesis
    unfolding Let_def now_def h3_def h4_def .
qed

theorem tick_connected_refresh_witness:
  "client_reply w_refresh_fails (trace hass0) 0 Is_websocket_connected = Inr True
   \<and> clock w_refresh_fails (trace hass0) - last_refresh_timestamp (systems hass0 0)
        = WEB_BOILER_REFRESH_INTERVAL w_refresh_fails + 1
   \<and> tick w_refresh_fails 0 hass0 =
        relogin w_refresh_fails 0
          (emit (Client 0 Refresh)
            (emit (Log Info msg_refresh_data)
              (set_last_refresh 0 (clock w_refresh_fails (trace hass0))
                (emit (Client 0 Is_websocket_connected) hass0))))
   \<and> length (filter is_set_last_relogin
         (drop (length (trace hass0)) (trace (snd (tick w_refresh_fails 0 hass0))))) = 1"
proof -
  have c: "client_reply w_refresh_fails (trace hass0) 0 Is_websocket_connected = Inr True"
    by (simp add: w_refresh_fails_def)
  have d: "clock w_refresh_fails (trace hass0) - last_refresh_timestamp (systems hass0 0)
        = WEB_BOILER_REFRESH_INTERVAL w_refresh_fails + 1"
    by (simp add: w_refresh_fails_def hass0_def)
  have r: "client_reply w_refresh_fails tr 0 Refresh = Inr False" for tr
    by (simp add: w_refresh_fails_def)
  note T = tick_connected_refresh [OF c disjI2 [OF d], unfolded Let_def]
  note Y = T [THEN conjunct2, THEN conjunct2, THEN conjunct2, unfolded if_P [OF r]]
  show ?thesis
    by (rule conjI [OF c conjI [OF d Y]])
qed


section \<open>The tick timer of a session\<close>

lemma cancel_tick_world: "cancel_tick w' self h = cancel_tick w self h"
  by (simp add: cancel_tick_def call_unsub_def split: option.splits)

lemma cancel_tick_twice: "cancel_tick w self (cancel_tick w self h) = cancel_tick w self h"
  by (simp add: cancel_tick_None)

lemma cancel_tick_trace:
  "trace (cancel_tick w self h) =
     trace h @ (case tick_unsub (systems h self) of None \<Rightarrow> [] | Some u \<Rightarrow> [Unsub u])"
  by (simp add: cancel_tick_def call_unsub_def upd_system_def split: option.splits)

lemma start_tick_twice_trace:
  "drop (length (trace (start_tick w self h)))
        (trace (start_tick w self (start_tick w self h))) =
     [Unsub (length (timers h)), Track_time_interval (Suc (length (timers h)))]"
  by (simp add: start_tick_props cancel_tick_trace)

text \<open>
  Claim C8. Let every active timer that runs the session's tick be the one whose handle
  the session holds (so for a new session, which has no timer). Then after every
  sequence of the session's methods the same holds and at most one such timer is
  active. \<^verbatim>\<open>start_tick\<close> first cancels: in the state between its cancellation and its
  installation no tick timer of the session is active, and a second \<^verbatim>\<open>start_tick\<close>
  invokes the handle of the first one's timer and only then installs its own, whose
  handle the session then holds. \<^verbatim>\<open>cancel_tick\<close> changes nothing when the session holds
  no handle, so also when called a second time; otherwise it invokes the handle and
  forgets it. Its result does not depend on the world, hence not on whether the
  invocation raised.
\<close>

theorem one_tick_timer:
  assumes "tick_inv h self"
  shows "tick_inv (run_ops w self ops h) self
     \<and> length (tick_timers (run_ops w self ops h) self) \<le> 1
     \<and> tick_timers (cancel_tick w self h) self = []
     \<and> length (tick_timers (start_tick w self (start_tick w self h)) self) \<le> 1
     \<and> tick_unsub (systems (start_tick w self (start_tick w self h)) self)
          = Some (Suc (length (timers h)))
     \<and> drop (length (trace (start_tick w self h)))
             (trace (start_tick w self (start_tick w self h))) =
          [Unsub (length (timers h)), Track_time_interval (Suc (length (timers h)))]
     \<and> (case tick_unsub (systems h self) of
           None \<Rightarrow> cancel_tick w self h = h
         | Some u \<Rightarrow> trace (cancel_tick w self h) = trace h @ [Unsub u]
                     \<and> tick_unsub (systems (cancel_tick w self h) self) = None)
     \<and> cancel_tick w self (cancel_tick w self h) = cancel_tick w self h
     \<and> cancel_tick w' self h = cancel_tick w self h"
proof -
  have a: "tick_inv (run_ops w self ops h) self" by (rule run_ops_inv [OF assms])
  have b: "length (tick_timers (run_ops w self ops h) self) \<le> 1" by (rule tick_inv_le1 [OF a])
  have c: "tick_timers (cancel_tick w self h) self = []" by (rule cancel_tick_no_timers [OF assms])
  have d: "length (tick_timers (start_tick w self (start_tick w self h)) self) \<le> 1"
    by (rule tick_inv_le1 [OF start_tick_inv [OF start_tick_inv [OF assms]]])
  have e: "tick_unsub (systems (start_tick w self (start_tick w self h)) self)
          = Some (Suc (length (timers h)))"
    by (simp add: start_tick_props)
  have f: "case tick_unsub (systems h self) of
           None \<Rightarrow> cancel_tick w self h = h
         | Some u \<Rightarrow> trace (cancel_tick w self h) = trace h @ [Unsub u]
                     \<and> tick_unsub (systems (cancel_tick w self h) self) = None"
    by (simp add: cancel_tick_None cancel_tick_trace split: option.splits)
  show ?thesis
    using a b c d e f start_tick_twice_trace [of w self h] cancel_tick_twice [of w self h]
      cancel_tick_world [of w' self h w]
    by blast
qed

theorem one_tick_timer_witness:
  "tick_inv hass0 0
   \<and> length (tick_timers
        (run_ops w_disconnected 0 [Op_start_tick, Op_tick, Op_start_tick, Op_relogin] hass0) 0) \<le> 1
   \<and> length (tick_timers (start_tick w_disconnected 0 (start_tick w_disconnected 0 hass0)) 0) \<le> 1
   \<and> tick_unsub (systems (start_tick w_disconnected 0 (start_tick w_disconnected 0 hass0)) 0)
        = Some 1
   \<and> cancel_tick w_disconnected 0 hass0 = hass0"
proof -
  have i: "tick_inv hass0 0"
    by (simp add: tick_inv_def tick_timers_def active_timers_def hass0_def)
  have t: "timers hass0 = []" "tick_unsub (systems hass0 0) = None"
    by (simp_all add: hass0_def)
  from one_tick_timer [OF i, of w_disconnected
      "[Op_start_tick, Op_tick, Op_start_tick, Op_relogin]" w_disconnected] i
  show ?thesis by (simp add: t)
qed


section \<open>Set-up, unloading and the watchdog's tick, step by step\<close>

lemma start_or_replace_watchdog_props:
  assumes "domain_data h user = Some a"
  shows "timers (start_or_replace_watchdog w entry user h) = timers h @ [Watchdog_tick a entry]"
    "cancelled (start_or_replace_watchdog w entry user h) =
       (case watchdog_unsub (stores h a) of None \<Rightarrow> [] | Some u \<Rightarrow> [u]) @ cancelled h"
    "trace (start_or_replace_watchdog w entry user h) =
       trace h @ (case watchdog_unsub (stores h a) of None \<Rightarrow> [] | Some u \<Rightarrow> [Unsub u])
         @ [Track_time_interval (length (timers h))]"
    "watchdog_unsub (stores (start_or_replace_watchdog w entry user h) a) = Some (length (timers h))"
    "last_reload_ts (stores (start_or_replace_watchdog w entry user h) a) =
       Some (case last_reload_ts (stores h a) of None \<Rightarrow> 0 | Some t \<Rightarrow> t)"
    "watchdog_started_ts (stores (start_or_replace_watchdog w entry user h) a) =
       Some (trunc (clock w (trace (start_or_replace_watchdog w entry user h))))"
    "web_boiler_client (stores (start_or_replace_watchdog w entry user h) a) =
       web_boiler_client (stores h a)"
    "web_boiler_system (stores (start_or_replace_watchdog w entry user h) a) =
       web_boiler_system (stores h a)"
    "systems (start_or_replace_watchdog w entry user h) = systems h"
    "next_addr (start_or_replace_watchdog w entry user h) = next_addr h"
    "domain_data (start_or_replace_watchdog w entry user h) = domain_data h"
  using assms
  by (simp_all add: start_or_replace_watchdog_def Let_def split_beta upd_store_def
        call_unsub_def async_track_time_interval_def emit_def split: option.splits)


lemma reloads_emit [simp]:
  "reloads (emit e h) = reloads h @ (if is_create_task_reload e then [e] else [])"
  by (simp add: reloads_def emit_def)

lemma reloads_call_client [simp]: "reloads (snd (call_client w c m h)) = reloads h"
  by (simp add: reloads_def)

lemma reloads_start [simp]: "reloads (snd (start w self h)) = reloads h"
  by (simp add: reloads_def start_def start_body_def call_client_def emit_def
        set_last_refresh_def upd_system_def split: sum.splits)

lemma reloads_stop [simp]: "reloads (snd (stop w self h)) = reloads h"
  by (simp add: stop_def)

lemma reloads_cancel_tick [simp]: "reloads (cancel_tick w self h) = reloads h"
  by (simp add: reloads_def cancel_tick_trace split: option.splits)

lemma reloads_start_tick [simp]: "reloads (start_tick w self h) = reloads h"
  using reloads_cancel_tick [of w self h]
  by (simp add: reloads_def start_tick_props)

lemma reloads_start_or_replace_watchdog:
  "domain_data h user = Some a \<Longrightarrow>
     reloads (start_or_replace_watchdog w entry user h) = reloads h"
  by (simp add: reloads_def start_or_replace_watchdog_props split: option.splits)

lemma cancel_tick_cancelled:
  "cancelled (cancel_tick w self h) =
     (case tick_unsub (systems h self) of None \<Rightarrow> [] | Some u \<Rightarrow> [u]) @ cancelled h"
  by (simp add: cancel_tick_def call_unsub_def upd_system_def split: option.splits)

lemma async_setup_entry_props:
  "timers (snd (async_setup_entry w entry h)) =
     timers h @ [On_interval (next_addr h), Watchdog_tick (Suc (next_addr h)) entry]"
  "cancelled (snd (async_setup_entry w entry h)) = cancelled h"
  "next_addr (snd (async_setup_entry w entry h)) = Suc (Suc (next_addr h))"
  "domain_data (snd (async_setup_entry w entry h)) =
     (domain_data h)(conf_email entry := Some (Suc (next_addr h)))"
  "web_boiler_system (stores (snd (async_setup_entry w entry h)) (Suc (next_addr h))) =
     Some (next_addr h)"
  "web_boiler_client (stores (snd (async_setup_entry w entry h)) (Suc (next_addr h))) =
     Some (next_addr h)"
  "watchdog_unsub (stores (snd (async_setup_entry w entry h)) (Suc (next_addr h))) =
     Some (Suc (length (timers h)))"
  "last_reload_ts (stores (snd (async_setup_entry w entry h)) (Suc (next_addr h))) = Some 0"
  "tick_unsub (systems (snd (async_setup_entry w entry h)) (next_addr h)) =
     Some (length (timers h))"
  "reloads (snd (async_setup_entry w entry h)) = reloads h"
  "trace (snd (async_setup_entry w entry h)) =
     trace (snd (start w (next_addr h) (before_start w entry h)))
     @ (if fst (start w (next_addr h) (before_start w entry h)) then []
        else [Log Error msg_access_denied])
     @ [Listen_once_stop (next_addr h), Track_time_interval (length (timers h)),
        Forward_entry_setups (entry_id entry), Track_time_interval (Suc (length (timers h))),
        Log Debug msg_setup_finished]"
proof -
  define n where "n = next_addr h"
  define h4 where "h4 = before_start w entry h"
  define h6 where "h6 =
     (if \<not> fst (start w n h4)
      then emit (Log Error msg_access_denied) (snd (start w n h4))
      else snd (start w n h4))"
  define h8 where "h8 = start_tick w n (emit (Listen_once_stop n) h6)"
  define h8' where "h8' = emit (Forward_entry_setups (entry_id entry)) h8"
  have p4: "timers h4 = timers h" "cancelled h4 = cancelled h" "next_addr h4 = Suc (Suc n)"
    "domain_data h4 = (domain_data h)(conf_email entry := Some (Suc n))"
    "stores h4 (Suc n) = empty_store\<lparr>web_boiler_system := Some n, web_boiler_client := Some n\<rparr>"
    "tick_unsub (systems h4 n) = None" "reloads h4 = reloads h"
    by (simp_all add: h4_def before_start_def n_def upd_store_def new_store_def
          WebBoilerSystem_init_def Let_def reloads_def emit_def)
  have p6: "timers h6 = timers h" "cancelled h6 = cancelled h" "next_addr h6 = Suc (Suc n)"
    "domain_data h6 = (domain_data h)(conf_email entry := Some (Suc n))"
    "stores h6 = stores h4" "tick_unsub (systems h6 n) = None" "reloads h6 = reloads h"
    "trace h6 = trace (snd (start w n h4))
                @ (if fst (start w n h4) then [] else [Log Error msg_access_denied])"
    by (simp_all add: h6_def p4)
  have c8: "cancel_tick w n (emit (Listen_once_stop n) h6) = emit (Listen_once_stop n) h6"
    by (rule cancel_tick_None) (simp add: p6)
  have p8: "timers h8 = timers h @ [On_interval n]" "cancelled h8 = cancelled h"
    "next_addr h8 = Suc (Suc n)"
    "domain_data h8 = (domain_data h)(conf_email entry := Some (Suc n))"
    "stores h8 = stores h4" "tick_unsub (systems h8 n) = Some (length (timers h))"
    "reloads h8 = reloads h"
    "trace h8 = trace h6 @ [Listen_once_stop n, Track_time_interval (length (timers h))]"
    by (simp_all add: h8_def start_tick_props c8 p6(1-7))
  have d8: "domain_data h8' (conf_email entry) = Some (Suc n)"
    by (simp add: h8'_def p8)
  have u8: "watchdog_unsub (stores h8' (Suc n)) = None" "last_reload_ts (stores h8' (Suc n)) = None"
    "web_boiler_client (stores h8' (Suc n)) = Some n"
    "web_boiler_system (stores h8' (Suc n)) = Some n"
    by (simp_all add: h8'_def p8 p4 empty_store_def)
  have fw: "async_forward_entry_setups w entry h8 =
      start_or_replace_watchdog w entry (conf_email entry) h8'"
    by (simp add: async_forward_entry_setups_def sensor_async_setup_entry_def Let_def
          h8'_def [symmetric] d8 u8)
  have res: "snd (async_setup_entry w entry h) =
      emit (Log Debug msg_setup_finished)
        (start_or_replace_watchdog w entry (conf_email entry) h8')"
    by (simp add: async_setup_entry_def Let_def split_beta fw [symmetric] h8_def h6_def h4_def
          before_start_def n_def WebBoilerSystem_init_def new_store_def)
  have p8': "timers h8' = timers h @ [On_interval n]" "cancelled h8' = cancelled h"
    "next_addr h8' = Suc (Suc n)"
    "domain_data h8' = (domain_data h)(conf_email entry := Some (Suc n))"
    "tick_unsub (systems h8' n) = Some (length (timers h))"
    "reloads h8' = reloads h"
    "trace h8' = trace h6 @ [Listen_once_stop n, Track_time_interval (length (timers h)),
                  Forward_entry_setups (entry_id entry)]"
    by (simp_all add: h8'_def p8)
  note sp = start_or_replace_watchdog_props [OF d8, of w entry]
  show "timers (snd (async_setup_entry w entry h)) =
     timers h @ [On_interval (next_addr h), Watchdog_tick (Suc (next_addr h)) entry]"
    "cancelled (snd (async_setup_entry w entry h)) = cancelled h"
    "next_addr (snd (async_setup_entry w entry h)) = Suc (Suc (next_addr h))"
    "domain_data (snd (async_setup_entry w entry h)) =
       (domain_data h)(conf_email entry := Some (Suc (next_addr h)))"
    "web_boiler_system (stores (snd (async_setup_entry w entry h)) (Suc (next_addr h))) =
       Some (next_addr h)"
    "web_boiler_client (stores (snd (async_setup_entry w entry h)) (Suc (next_addr h))) =
       Some (next_addr h)"
    "watchdog_unsub (stores (snd (async_setup_entry w entry h)) (Suc (next_addr h))) =
       Some (Suc (length (timers h)))"
    "last_reload_ts (stores (snd (async_setup_entry w entry h)) (Suc (next_addr h))) = Some 0"
    "tick_unsub (systems (snd (async_setup_entry w entry h)) (next_addr h)) =
       Some (length (timers h))"
    "reloads (snd (async_setup_entry w entry h)) = reloads h"
    "trace (snd (async_setup_entry w entry h)) =
       trace (snd (start w (next_addr h) (before_start w entry h)))
       @ (if fst (start w (next_addr h) (before_start w entry h)) then []
          else [Log Error msg_access_denied])
       @ [Listen_once_stop (next_addr h), Track_time_interval (length (timers h)),
          Forward_entry_setups (entry_id entry), Track_time_interval (Suc (length (timers h))),
          Log Debug msg_setup_finished]"
    using reloads_start_or_replace_watchdog [OF d8, of w entry]
    by (simp_all add: res sp u8 p8' p6(8) n_def [symmetric] h4_def [symmetric])
qed

lemma before_start_trace:
  "trace (before_start w entry h) = trace h @ [Log Debug msg_setting_up]"
  by (simp add: before_start_def Let_def split_beta upd_store_def new_store_def
        WebBoilerSystem_init_def)

lemma reloads_domain_data_update [simp]: "reloads (h\<lparr>domain_data := d\<rparr>) = reloads h"
  by (simp add: reloads_def)

lemma async_unload_entry_props:
  "timers (snd (async_unload_entry w entry h)) = timers h"
  "next_addr (snd (async_unload_entry w entry h)) = next_addr h"
  "stores (snd (async_unload_entry w entry h)) = stores h"
  "domain_data (snd (async_unload_entry w entry h)) = (domain_data h)(conf_email entry := None)"
  "reloads (snd (async_unload_entry w entry h)) = reloads h"
  "cancelled (snd (async_unload_entry w entry h)) =
     (case domain_data h (conf_email entry) of
        None \<Rightarrow> []
      | Some a \<Rightarrow>
          (case web_boiler_system (stores h a) of
             None \<Rightarrow> []
           | Some sys \<Rightarrow>
               (case tick_unsub (systems h sys) of None \<Rightarrow> [] | Some u \<Rightarrow> [u]))) @ cancelled h"
  by (simp_all add: async_unload_entry_def async_unload_platforms_def Let_def split_beta
        cancel_tick_cancelled split: option.splits)

lemma watchdog_tick_fires:
  assumes c: "web_boiler_client (stores h a) = Some c"
    and down: "client_reply w (trace h) c Is_websocket_connected \<noteq> Inr True"
    and cool: "\<not> trunc (clock w (trace h))
                 - (case last_reload_ts (stores h a) of None \<Rightarrow> 0 | Some t \<Rightarrow> t)
                 < RELOAD_COOLDOWN_SECONDS"
  shows "trace (watchdog_tick w a entry h) =
           trace h @ [Client c Is_websocket_connected,
                      Log Warning (msg_reloading @ ''websocket disconnected'')]
             @ (case watchdog_unsub (stores h a) of None \<Rightarrow> [] | Some u \<Rightarrow> [Unsub u])
             @ [Create_task_reload (entry_id entry)]"
    "last_reload_ts (stores (watchdog_tick w a entry h) a) = Some (trunc (clock w (trace h)))"
    "watchdog_unsub (stores (watchdog_tick w a entry h) a) = None"
    "cancelled (watchdog_tick w a entry h) =
       (case watchdog_unsub (stores h a) of None \<Rightarrow> [] | Some u \<Rightarrow> [u]) @ cancelled h"
    "timers (watchdog_tick w a entry h) = timers h"
    "systems (watchdog_tick w a entry h) = systems h"
    "next_addr (watchdog_tick w a entry h) = next_addr h"
    "domain_data (watchdog_tick w a entry h) = domain_data h"
    "web_boiler_client (stores (watchdog_tick w a entry h) a) = Some c"
    "web_boiler_system (stores (watchdog_tick w a entry h) a) = web_boiler_system (stores h a)"
proof -
  have conn: "(case client_reply w (trace h) c Is_websocket_connected of
                 Inl e \<Rightarrow> False | Inr b \<Rightarrow> b) = False"
    using down by (cases "client_reply w (trace h) c Is_websocket_connected") auto
  have rr: "reload_reason False d t s = Some ''websocket disconnected''" for d t s
    by (simp add: reload_reason_def)
  show "trace (watchdog_tick w a entry h) =
           trace h @ [Client c Is_websocket_connected,
                      Log Warning (msg_reloading @ ''websocket disconnected'')]
             @ (case watchdog_unsub (stores h a) of None \<Rightarrow> [] | Some u \<Rightarrow> [Unsub u])
             @ [Create_task_reload (entry_id entry)]"
    "last_reload_ts (stores (watchdog_tick w a entry h) a) = Some (trunc (clock w (trace h)))"
    "watchdog_unsub (stores (watchdog_tick w a entry h) a) = None"
    "cancelled (watchdog_tick w a entry h) =
       (case watchdog_unsub (stores h a) of None \<Rightarrow> [] | Some u \<Rightarrow> [u]) @ cancelled h"
    "timers (watchdog_tick w a entry h) = timers h"
    "systems (watchdog_tick w a entry h) = systems h"
    "next_addr (watchdog_tick w a entry h) = next_addr h"
    "domain_data (watchdog_tick w a entry h) = domain_data h"
    "web_boiler_client (stores (watchdog_tick w a entry h) a) = Some c"
    "web_boiler_system (stores (watchdog_tick w a entry h) a) = web_boiler_system (stores h a)"
    using c cool
    by (simp_all add: watchdog_tick_def call_client_def Let_def conn rr upd_store_def
          call_unsub_def emit_def split: option.splits)
qed

lemma watchdog_tick_suppressed:
  assumes c: "web_boiler_client (stores h a) = Some c"
    and down: "client_reply w (trace h) c Is_websocket_connected \<noteq> Inr True"
    and cool: "trunc (clock w (trace h))
                 - (case last_reload_ts (stores h a) of None \<Rightarrow> 0 | Some t \<Rightarrow> t)
                 < RELOAD_COOLDOWN_SECONDS"
  shows "reloads (watchdog_tick w a entry h) = reloads h"
    "cancelled (watchdog_tick w a entry h) = cancelled h"
    "stores (watchdog_tick w a entry h) = stores h"
    "timers (watchdog_tick w a entry h) = timers h"
proof -
  have conn: "(case client_reply w (trace h) c Is_websocket_connected of
                 Inl e \<Rightarrow> False | Inr b \<Rightarrow> b) = False"
    using down by (cases "client_reply w (trace h) c Is_websocket_connected") auto
  have rr: "reload_reason False d t s = Some ''websocket disconnected''" for d t s
    by (simp add: reload_reason_def)
  show "reloads (watchdog_tick w a entry h) = reloads h"
    "cancelled (watchdog_tick w a entry h) = cancelled h"
    "stores (watchdog_tick w a entry h) = stores h"
    "timers (watchdog_tick w a entry h) = timers h"
    using c cool
    by (simp_all add: watchdog_tick_def call_client_def Let_def conn rr reloads_def emit_def)
qed

lemma watchdog_tick_fires_reloads:
  assumes c: "web_boiler_client (stores h a) = Some c"
    and down: "client_reply w (trace h) c Is_websocket_connected \<noteq> Inr True"
    and cool: "\<not> trunc (clock w (trace h))
                 - (case last_reload_ts (stores h a) of None \<Rightarrow> 0 | Some t \<Rightarrow> t)
                 < RELOAD_COOLDOWN_SECONDS"
  shows "reloads (watchdog_tick w a entry h) = reloads h @ [Create_task_reload (entry_id entry)]"
  by (simp add: reloads_def watchdog_tick_fires(1) [OF c down cool] split: option.splits)


section \<open>Set-up after a failed login\<close>

lemma hass0_simps [simp]:
  "timers hass0 = []" "cancelled hass0 = []" "next_addr hass0 = 0"
  "domain_data hass0 = (\<lambda>user. None)" "trace hass0 = []" "reloads hass0 = []"
  by (simp_all add: hass0_def reloads_def)

lemma entry0_simps: "entry_id entry0 = ''entry''" "conf_email entry0 = ''user''"
  by (simp_all add: entry0_def)

lemma tick_timers_eval:
  "tick_timers h self =
     filter (\<lambda>u. u \<notin> set (cancelled h) \<and> timers h ! u = On_interval self)
       [0..<length (timers h)]"
  by (auto simp: tick_timers_def active_timers_def active_def intro: filter_cong)

lemma watchdogs_eval:
  "watchdogs h user =
     filter (\<lambda>u. u \<notin> set (cancelled h) \<and> is_watchdog_of user (timers h ! u))
       [0..<length (timers h)]"
  by (auto simp: watchdogs_def active_timers_def active_def intro: filter_cong)

lemma start_login_not_true:
  assumes "client_reply w (trace h @ [Log Debug msg_starting]) self Login \<noteq> Inr True"
  shows "fst (start w self h) = False"
    "trace (snd (start w self h)) =
       trace h @ [Log Debug msg_starting, Client self Login, Log Error msg_authentication_failed]"
  using assms
  by (cases "client_reply w (trace h @ [Log Debug msg_starting]) self Login";
      simp add: start_def start_body_def call_client_def emit_def)+

lemma setup_tick_timer:
  "tick_timers (snd (async_setup_entry w entry hass0)) 0 = [0]"
  by (simp add: tick_timers_eval async_setup_entry_props upt_rec)

text \<open>
  Claim C1 as it stands fails: a set-up of the entry \<open>entry0\<close> from the initial state,
  in a world whose login returns false. \<^verbatim>\<open>start\<close> returns false (the two error lines
  are logged, no websocket is opened and no refresh issued), and \<^verbatim>\<open>async_setup_entry\<close>
  goes on to \<^verbatim>\<open>start_tick\<close>: timer 0, the tick timer of session 0, is active at the end.
\<close>

theorem setup_after_failed_login_counterexample:
  "fst (start w_login_false 0 (before_start w_login_false entry0 hass0)) = False
   \<and> trace (snd (async_setup_entry w_login_false entry0 hass0)) =
     [Log Debug msg_setting_up, Log Debug msg_starting, Client 0 Login,
      Log Error msg_authentication_failed, Log Error msg_access_denied,
      Listen_once_stop 0, Track_time_interval 0, Forward_entry_setups ''entry'',
      Track_time_interval 1, Log Debug msg_setup_finished]
   \<and> tick_timers (snd (async_setup_entry w_login_false entry0 hass0)) 0 = [0]"
proof -
  have l: "client_reply w_login_false
             (trace (before_start w_login_false entry0 hass0) @ [Log Debug msg_starting]) 0 Login
           \<noteq> Inr True"
    by (simp add: w_login_false_def)
  note st = start_login_not_true [OF l]
  have t: "trace (snd (async_setup_entry w_login_false entry0 hass0)) =
     [Log Debug msg_setting_up, Log Debug msg_starting, Client 0 Login,
      Log Error msg_authentication_failed, Log Error msg_access_denied,
      Listen_once_stop 0, Track_time_interval 0, Forward_entry_setups ''entry'',
      Track_time_interval 1, Log Debug msg_setup_finished]"
    by (simp add: async_setup_entry_props(11) st before_start_trace entry0_simps)
  from st(1) t setup_tick_timer [of w_login_false entry0] show ?thesis by simp
qed

text \<open>
  Claim C1, amended. When the login does not return true (it returns false, or raises),
  \<^verbatim>\<open>start\<close> returns false, and all it does is log its first line, call the login and
  log the failure: no websocket is opened, no refresh is issued, and \<^verbatim>\<open>start\<close> itself
  creates and cancels no timer and leaves \<^verbatim>\<open>_tick_unsub\<close> as it was. But the set-up of
  an entry calls \<^verbatim>\<open>start_tick\<close> after \<^verbatim>\<open>start\<close> whatever it returned: when the login of
  a set-up from the initial state fails, the set-up logs the access-denied error, then
  creates the tick timer, and at its end the session has one active tick timer, the
  one \<^verbatim>\<open>_tick_unsub\<close> holds.
\<close>

theorem start_login_failure:
  assumes "client_reply w (trace h @ [Log Debug msg_starting]) self Login \<noteq> Inr True"
    and "client_reply w' [Log Debug msg_setting_up, Log Debug msg_starting] 0 Login \<noteq> Inr True"
  shows "fst (start w self h) = False
     \<and> trace (snd (start w self h)) =
         trace h @ [Log Debug msg_starting, Client self Login, Log Error msg_authentication_failed]
     \<and> timers (snd (start w self h)) = timers h
     \<and> cancelled (snd (start w self h)) = cancelled h
     \<and> tick_unsub (systems (snd (start w self h)) self) = tick_unsub (systems h self)
     \<and> trace (snd (async_setup_entry w' entry hass0)) =
         [Log Debug msg_setting_up, Log Debug msg_starting, Client 0 Login,
          Log Error msg_authentication_failed, Log Error msg_access_denied,
          Listen_once_stop 0, Track_time_interval 0, Forward_entry_setups (entry_id entry),
          Track_time_interval 1, Log Debug msg_setup_finished]
     \<and> tick_timers (snd (async_setup_entry w' entry hass0)) 0 = [0]
     \<and> tick_unsub (systems (snd (async_setup_entry w' entry hass0)) 0) = Some 0"
proof -
  note a = start_login_not_true [OF assms(1)]
  have l: "client_reply w' (trace (before_start w' entry hass0) @ [Log Debug msg_starting]) 0 Login
           \<noteq> Inr True"
    using assms(2) by (simp add: before_start_trace)
  note st = start_login_not_true [OF l]
  have t: "trace (snd (async_setup_entry w' entry hass0)) =
         [Log Debug msg_setting_up, Log Debug msg_starting, Client 0 Login,
          Log Error msg_authentication_failed, Log Error msg_access_denied,
          Listen_once_stop 0, Track_time_interval 0, Forward_entry_setups (entry_id entry),
          Track_time_interval 1, Log Debug msg_setup_finished]"
    by (simp add: async_setup_entry_props(11) st before_start_trace)
  have u: "tick_unsub (systems (snd (async_setup_entry w' entry hass0)) 0) = Some 0"
    using async_setup_entry_props(9) [of w' entry hass0] by simp
  from a t setup_tick_timer [of w' entry] u show ?thesis by simp
qed

theorem start_login_failure_witness:
  "client_reply w_login_false (trace hass0 @ [Log Debug msg_starting]) 0 Login \<noteq> Inr True
   \<and> client_reply w_login_false [Log Debug msg_setting_up, Log Debug msg_starting] 0 Login
       \<noteq> Inr True
   \<and> fst (start w_login_false 0 hass0) = False
   \<and> trace (snd (start w_login_false 0 hass0)) =
        [Log Debug msg_starting, Client 0 Login, Log Error msg_authentication_failed]
   \<and> tick_timers (snd (async_setup_entry w_login_false entry0 hass0)) 0 = [0]
   \<and> tick_unsub (systems (snd (async_setup_entry w_login_false entry0 hass0)) 0) = Some 0"
proof -
  have h: "client_reply w_login_false (trace hass0 @ [Log Debug msg_starting]) 0 Login \<noteq> Inr True"
    by (simp add: w_login_false_def)
  have h': "client_reply w_login_false [Log Debug msg_setting_up, Log Debug msg_starting] 0 Login
       \<noteq> Inr True"
    by (simp add: w_login_false_def)
  from start_login_failure [OF h h', of entry0] h h'
  show ?thesis by simp
qed


section \<open>The watchdog across a reload of the entry\<close>

lemma clock_w_down: "clock w_down (trace h) = 1700000000 + 121 * real (length (reloads h))"
  by (simp add: w_down_def reloads_def)

lemma down_w_down: "client_reply w_down tr c Is_websocket_connected \<noteq> Inr True"
  by (simp add: w_down_def)

lemma unload_ok_w_down: "fst (async_unload_entry w_down entry h) = True"
  by (simp add: async_unload_entry_def async_unload_platforms_def Let_def split_beta w_down_def)

lemma watchdogs_after_second_setup:
  "cancelled (snd (async_setup_entry w entry (snd (async_unload_entry w' entry
       (snd (async_setup_entry w entry hass0)))))) = [0]
   \<and> watchdogs (snd (async_setup_entry w entry (snd (async_unload_entry w' entry
       (snd (async_setup_entry w entry hass0)))))) (conf_email entry) = [1, 3]"
proof -
  define h1 where "h1 = snd (async_setup_entry w entry hass0)"
  define h2 where "h2 = snd (async_unload_entry w' entry h1)"
  define h3 where "h3 = snd (async_setup_entry w entry h2)"
  have p1: "timers h1 = [On_interval 0, Watchdog_tick 1 entry]" "cancelled h1 = []"
    "next_addr h1 = Suc (Suc 0)" "domain_data h1 (conf_email entry) = Some (Suc 0)"
    "web_boiler_system (stores h1 (Suc 0)) = Some 0" "tick_unsub (systems h1 0) = Some 0"
    using async_setup_entry_props [of w entry hass0] by (simp_all add: h1_def)
  have p2: "timers h2 = [On_interval 0, Watchdog_tick 1 entry]" "cancelled h2 = [0]"
    "next_addr h2 = Suc (Suc 0)"
    by (simp_all add: h2_def async_unload_entry_props p1)
  have p3: "timers h3 = [On_interval 0, Watchdog_tick 1 entry, On_interval 2, Watchdog_tick 3 entry]"
    "cancelled h3 = [0]"
    using async_setup_entry_props [of w entry h2] by (simp_all add: h3_def p2)
  have "cancelled h3 = [0] \<and> watchdogs h3 (conf_email entry) = [1, 3]"
    by (simp add: watchdogs_eval p3 upt_rec)
  then show ?thesis by (simp add: h3_def h2_def h1_def)
qed

text \<open>
  Claim C9, at an input where the code departs from it: the entry \<open>entry0\<close> of the
  account "user" is set up from the initial state and then reloaded by the platform
  (unloaded and set up again), in a world whose unloading succeeds. The unloading
  cancels the tick timer (handle 0) and nothing else; the second set-up stores a new
  dict for the account, in which \<^verbatim>\<open>_start_or_replace_watchdog\<close> finds no handle to
  cancel. The watchdog of the first set-up (timer 1) and the one of the second (timer
  3) are both active: two watchdogs of one account. This is so in every world and for
  every entry that is unloaded and set up again.
\<close>

theorem two_watchdogs_after_reload:
  "watchdogs (snd (async_setup_entry w_down entry0 hass0)) ''user'' = [1]
   \<and> cancelled (async_reload w_down entry0 (snd (async_setup_entry w_down entry0 hass0))) = [0]
   \<and> watchdogs (async_reload w_down entry0 (snd (async_setup_entry w_down entry0 hass0))) ''user''
       = [1, 3]
   \<and> watchdogs (snd (async_setup_entry w entry (snd (async_unload_entry w' entry
         (snd (async_setup_entry w entry hass0)))))) (conf_email entry) = [1, 3]"
proof -
  have r: "async_reload w_down entry0 h =
      snd (async_setup_entry w_down entry0 (snd (async_unload_entry w_down entry0 h)))" for h
    using unload_ok_w_down [of entry0 h] by (simp add: async_reload_def split_beta)
  have one: "watchdogs (snd (async_setup_entry w_down entry0 hass0)) ''user'' = [1]"
    by (simp add: watchdogs_eval async_setup_entry_props upt_rec entry0_simps)
  from one watchdogs_after_second_setup [of w_down entry0 w_down]
    watchdogs_after_second_setup [of w entry w']
  show ?thesis by (simp add: r entry0_simps)
qed

text \<open>
  Claim C2, at an input where the code departs from it: the websocket of the account
  never comes up. The entry is set up; its watchdog (timer 1) finds the websocket down
  at time 1700000000 and, out of cooldown, records that time in the account's dict
  and creates the reload task; the platform reloads the entry, and the second set-up
  stores a new dict, whose \<^verbatim>\<open>_last_reload_ts\<close> is 0 again; the new watchdog (timer 3)
  finds the websocket down 121 s after the first reload and is out of cooldown too: a
  second reload task, 121 s after the first, where the cooldown is 900 s. The two
  reload times are recorded in two dicts (addresses 1 and 3).
\<close>

theorem reload_twice_within_cooldown:
  "reloads (fire w_down 3 (async_reload w_down entry0
       (fire w_down 1 (snd (async_setup_entry w_down entry0 hass0))))) =
     [Create_task_reload ''entry'', Create_task_reload ''entry'']
   \<and> last_reload_ts (stores (fire w_down 1 (snd (async_setup_entry w_down entry0 hass0))) 1) =
       Some 1700000000
   \<and> last_reload_ts (stores (fire w_down 3 (async_reload w_down entry0
       (fire w_down 1 (snd (async_setup_entry w_down entry0 hass0))))) 3) = Some 1700000121
   \<and> (1700000121 :: int) - 1700000000 < RELOAD_COOLDOWN_SECONDS"
proof -
  define h1 where "h1 = snd (async_setup_entry w_down entry0 hass0)"
  define h2 where "h2 = fire w_down 1 h1"
  define hu where "hu = snd (async_unload_entry w_down entry0 h2)"
  define h3 where "h3 = async_reload w_down entry0 h2"
  define h4 where "h4 = fire w_down 3 h3"
  have p1: "timers h1 = [On_interval 0, Watchdog_tick (Suc 0) entry0]" "cancelled h1 = []"
    "next_addr h1 = Suc (Suc 0)" "domain_data h1 ''user'' = Some (Suc 0)"
    "web_boiler_system (stores h1 (Suc 0)) = Some 0"
    "web_boiler_client (stores h1 (Suc 0)) = Some 0"
    "last_reload_ts (stores h1 (Suc 0)) = Some 0"
    "tick_unsub (systems h1 0) = Some 0" "reloads h1 = []"
    "watchdog_unsub (stores h1 (Suc 0)) = Some (Suc 0)"
    using async_setup_entry_props [of w_down entry0 hass0] by (simp_all add: h1_def entry0_simps)
  have f2: "h2 = watchdog_tick w_down (Suc 0) entry0 h1"
    by (simp add: h2_def fire_def active_def p1)
  have cool1: "\<not> trunc (clock w_down (trace h1))
                 - (case last_reload_ts (stores h1 (Suc 0)) of None \<Rightarrow> 0 | Some t \<Rightarrow> t)
                 < RELOAD_COOLDOWN_SECONDS"
    by (simp add: clock_w_down p1 trunc_def RELOAD_COOLDOWN_SECONDS_def)
  note wt1 = watchdog_tick_fires [OF p1(6) down_w_down cool1, of entry0]
  have p2: "timers h2 = [On_interval 0, Watchdog_tick (Suc 0) entry0]" "cancelled h2 = [Suc 0]"
    "next_addr h2 = Suc (Suc 0)" "domain_data h2 ''user'' = Some (Suc 0)"
    "web_boiler_system (stores h2 (Suc 0)) = Some 0"
    "tick_unsub (systems h2 0) = Some 0"
    "reloads h2 = [Create_task_reload ''entry'']"
    "last_reload_ts (stores h2 (Suc 0)) = Some 1700000000"
    using watchdog_tick_fires_reloads [OF p1(6) down_w_down cool1, of entry0]
    by (simp_all add: f2 wt1 p1 clock_w_down trunc_def entry0_simps)
  have pu: "timers hu = [On_interval 0, Watchdog_tick (Suc 0) entry0]" "cancelled hu = [0, Suc 0]"
    "next_addr hu = Suc (Suc 0)" "reloads hu = [Create_task_reload ''entry'']"
    by (simp_all add: hu_def async_unload_entry_props p2 entry0_simps)
  have f3: "h3 = snd (async_setup_entry w_down entry0 hu)"
    using unload_ok_w_down [of entry0 h2]
    by (simp add: h3_def hu_def async_reload_def split_beta)
  have p3: "timers h3 = [On_interval 0, Watchdog_tick (Suc 0) entry0,
                         On_interval (Suc (Suc 0)), Watchdog_tick (Suc (Suc (Suc 0))) entry0]"
    "cancelled h3 = [0, Suc 0]"
    "web_boiler_client (stores h3 (Suc (Suc (Suc 0)))) = Some (Suc (Suc 0))"
    "last_reload_ts (stores h3 (Suc (Suc (Suc 0)))) = Some 0"
    "reloads h3 = [Create_task_reload ''entry'']"
    using async_setup_entry_props [of w_down entry0 hu] by (simp_all add: f3 pu)
  have f4: "h4 = watchdog_tick w_down (Suc (Suc (Suc 0))) entry0 h3"
    by (simp add: h4_def fire_def active_def p3 numeral_3_eq_3)
  have cool3: "\<not> trunc (clock w_down (trace h3))
                 - (case last_reload_ts (stores h3 (Suc (Suc (Suc 0)))) of None \<Rightarrow> 0 | Some t \<Rightarrow> t)
                 < RELOAD_COOLDOWN_SECONDS"
    by (simp add: clock_w_down p3 trunc_def RELOAD_COOLDOWN_SECONDS_def)
  have p4: "reloads h4 = [Create_task_reload ''entry'', Create_task_reload ''entry'']"
    "last_reload_ts (stores h4 (Suc (Suc (Suc 0)))) = Some 1700000121"
    using watchdog_tick_fires_reloads [OF p3(3) down_w_down cool3, of entry0]
      watchdog_tick_fires(2) [OF p3(3) down_w_down cool3, of entry0]
    by (simp_all add: f4 p3 clock_w_down trunc_def entry0_simps)
  have "reloads h4 = [Create_task_reload ''entry'', Create_task_reload ''entry'']
     \<and> last_reload_ts (stores h2 1) = Some 1700000000
     \<and> last_reload_ts (stores h4 3) = Some 1700000121
     \<and> (1700000121 :: int) - 1700000000 < RELOAD_COOLDOWN_SECONDS"
    using p4 p2(8) by (simp add: RELOAD_COOLDOWN_SECONDS_def numeral_3_eq_3)
  then show ?thesis by (simp add: h4_def h3_def h2_def h1_def)
qed

end
